theory Spec2Isabelle
  imports Main "HOL-Library.Word"
begin

section \<open>JavaScript values used by the fetcher\<close>

text \<open>
  A JavaScript string is a sequence of UTF-16 code units, and \<open>length\<close>, \<open>slice\<close> and
  \<open>includes\<close> count code units. A \<open>Buffer\<close> is a sequence of bytes.
  \<open>js\<close> embeds an ASCII literal of the source.
\<close>

type_synonym jschar = "16 word"
type_synonym jsstring = "jschar list"
type_synonym buffer = "8 word list"

definition js :: "string \<Rightarrow> jsstring" where
  "js s = map of_char s"

fun startsWith :: "jsstring \<Rightarrow> jsstring \<Rightarrow> bool" where
  "startsWith s [] = True"
| "startsWith [] (p # ps) = False"
| "startsWith (c # cs) (p # ps) = (c = p \<and> startsWith cs ps)"

text \<open>\<open>String.prototype.includes\<close>, which is also what an unanchored regular expression
  made of literal alternatives tests.\<close>

fun str_includes :: "jsstring \<Rightarrow> jsstring \<Rightarrow> bool" where
  "str_includes [] p = (p = [])"
| "str_includes (c # cs) p = (startsWith (c # cs) p \<or> str_includes cs p)"

text \<open>The \<open>i\<close> flag of a regular expression without the \<open>u\<close> flag compares canonicalised
  code units; against ASCII pattern characters only the letters a-z and A-Z are folded.\<close>

definition ascii_upper :: "jschar \<Rightarrow> jschar" where
  "ascii_upper c = (if 97 \<le> c \<and> c \<le> 122 then c - 32 else c)"

definition str_includes_i :: "jsstring \<Rightarrow> jsstring \<Rightarrow> bool" where
  "str_includes_i s p = str_includes (map ascii_upper s) (map ascii_upper p)"

text \<open>Truthiness of an optional string: \<open>undefined\<close>, \<open>null\<close> and \<open>""\<close> are falsy.\<close>

definition truthy :: "jsstring option \<Rightarrow> bool" where
  "truthy v = (case v of None \<Rightarrow> False | Some s \<Rightarrow> s \<noteq> [])"

text \<open>\<open>a || b\<close> on optional strings.\<close>

definition or_else :: "jsstring option \<Rightarrow> jsstring option \<Rightarrow> jsstring option" where
  "or_else a b = (if truthy a then a else b)"

text \<open>A header value is a string or a list of strings (\<open>Headers\<close> of the type declarations).\<close>

datatype hval = HStr jsstring | HList "jsstring list"

type_synonym headers = "jsstring \<rightharpoonup> hval"

text \<open>
  \<open>MessageType = string | object | Buffer\<close>, with \<open>null\<close>/\<open>undefined\<close> for an absent body.
  \<open>'x\<close> is the type of opaque JavaScript objects (a body object, a parsed JSON value).
  A readable stream is represented by the bytes the transport delivers through it,
  untouched.
\<close>

datatype 'x message =
    MNull
  | MText jsstring
  | MBuffer buffer
  | MObject 'x
  | MStream buffer

fun message_truthy :: "'x message \<Rightarrow> bool" where
  "message_truthy MNull = False"
| "message_truthy (MText s) = (s \<noteq> [])"
| "message_truthy _ = True"

text \<open>\<open>typeof v === "object"\<close> for a truthy message.\<close>

fun typeof_object :: "'x message \<Rightarrow> bool" where
  "typeof_object (MBuffer _) = True"
| "typeof_object (MObject _) = True"
| "typeof_object (MStream _) = True"
| "typeof_object _ = False"

fun typeof_string :: "'x message \<Rightarrow> bool" where
  "typeof_string (MText _) = True"
| "typeof_string _ = False"

section \<open>Requests, responses and errors\<close>

text \<open>The request as the caller gives it: every field but \<open>url\<close> is optional.\<close>

record 'x request_options =
  opt_url :: jsstring
  opt_method :: "jsstring option"
  opt_headers :: "headers option"
  opt_cookies :: "jsstring list option"
  opt_data :: "'x message"
  opt_timeout :: "int option"
  opt_retries :: "int option"
  opt_maxRedirects :: "int option"
  opt_responseType :: "jsstring option"
  opt_responseCharset :: "jsstring option"
  opt_proxy :: "'x option"

text \<open>The request after the defaults of \<open>Fetcher.dispatch\<close> are applied. Numbers are
  integers: \<open>NaN\<close> is a void value that the defaults replace, and fractional or
  infinite values of \<open>retries\<close> are left out.\<close>

record 'x request =
  req_url :: jsstring
  req_method :: jsstring
  req_headers :: headers
  req_cookies :: "jsstring list"
  req_data :: "'x message"
  req_timeout :: int
  req_retries :: int
  req_maxRedirects :: "int option"
  req_responseType :: "jsstring option"
  req_responseCharset :: "jsstring option"
  req_proxy :: "'x option"

record 'x response =
  res_ok :: bool
  res_url :: jsstring
  res_status :: int
  res_statusText :: jsstring
  res_headers :: headers
  res_cookies :: hval
  res_type :: "jsstring option"
  res_data :: "'x message"

text \<open>
  An \<open>Error\<close> object with the own properties the dispatcher reads, deletes or writes.
  \<open>err_toJSON\<close> says whether the object has an own \<open>toJSON\<close> property.
\<close>

record 'x js_error =
  err_name :: jsstring
  err_message :: jsstring
  err_isAxiosError :: bool
  err_code :: "jsstring option"
  err_config :: "'x option"
  err_toJSON :: bool
  err_request :: "'x request option"
  err_response :: "'x response option"

text \<open>\<open>String(error)\<close>, that is \<open>Error.prototype.toString\<close>.\<close>

definition error_toString :: "'x js_error \<Rightarrow> jsstring" where
  "error_toString e =
     (if err_name e = [] then err_message e
      else if err_message e = [] then err_name e
      else err_name e @ js '': '' @ err_message e)"

text \<open>\<open>new TypeError(msg)\<close>.\<close>

definition TypeError :: "jsstring \<Rightarrow> 'x js_error" where
  "TypeError msg =
     \<lparr>err_name = js ''TypeError'', err_message = msg, err_isAxiosError = False,
      err_code = None, err_config = None, err_toJSON = False,
      err_request = None, err_response = None\<rparr>"

text \<open>What one call of \<open>handle\<close> does: it returns a response or it throws.\<close>

datatype 'x outcome = Returned "'x response" | Threw "'x js_error"

text \<open>How the promise of \<open>Fetcher.dispatch\<close> settles.\<close>

datatype 'x settled = Resolved "'x response" | Rejected "'x js_error"

section \<open>The retry policy of \<open>Fetcher.dispatch\<close>\<close>

definition RetryableStatuses :: "int list" where
  "RetryableStatuses = [408, 409, 425, 500, 502, 503, 504]"

text \<open>\<open>HangUpPattern.test\<close>: \<open>/net::ERR_EMPTY_RESPONSE|socket hang up/\<close>.\<close>

definition HangUpPattern :: "jsstring \<Rightarrow> bool" where
  "HangUpPattern s =
     (str_includes s (js ''net::ERR_EMPTY_RESPONSE'') \<or> str_includes s (js ''socket hang up''))"

text \<open>\<open>UnretryablePattern.test\<close>: the six alternatives, case-insensitive.\<close>

definition UnretryablePattern :: "jsstring \<Rightarrow> bool" where
  "UnretryablePattern s =
     list_ex (\<lambda>p. str_includes_i s (js p))
       [''ERR_CONNECTION_REFUSED'', ''ECONNREFUSED'',
        ''ERR_TOO_MANY_REDIRECTS'', ''Max redirects'',
        ''ERR_INTERNET_DISCONNECTED'', ''ENOTFOUND'']"

text \<open>The local \<open>isGone\<close> of \<open>doRequest\<close>: set when no response came and the error
  matches the hang-up pattern.\<close>

definition isGone :: "'x outcome \<Rightarrow> bool" where
  "isGone out =
     (case out of Returned response \<Rightarrow> False
      | Threw error \<Rightarrow> HangUpPattern (error_toString error))"

text \<open>The local \<open>shouldRetry\<close> of \<open>doRequest\<close>, from the outcome of the attempt, the
  attempt counter \<open>retries\<close> and \<open>request.retries\<close>.\<close>

definition shouldRetry :: "'x outcome \<Rightarrow> int \<Rightarrow> int \<Rightarrow> bool" where
  "shouldRetry out retries request_retries =
     (case out of
        Returned response \<Rightarrow>
          \<not> res_ok response \<and> retries < request_retries
            \<and> res_status response \<in> set RetryableStatuses
      | Threw error \<Rightarrow>
          if HangUpPattern (error_toString error) then retries < 1
          else retries < request_retries \<and> \<not> UnretryablePattern (error_toString error))"

section \<open>\<open>Fetcher.dispatch\<close>\<close>

text \<open>
  The helpers of \<open>./utils\<close> and the \<open>qs\<close> library are parameters of the dispatcher.
  \<open>resolveMagicVars\<close> reads the clock and the random generator, so it is indexed by the
  number of the attempt that calls it. \<open>resolveMagicVars_list\<close> is what the same
  function returns when it is handed a list-valued header.
\<close>

record 'x dispatch_env =
  lowerHeaders :: "headers \<Rightarrow> headers"
  extractContentType :: "hval option \<Rightarrow> jsstring option"
  resolveMagicVars :: "nat \<Rightarrow> jsstring \<Rightarrow> jsstring"
  resolveMagicVars_list :: "nat \<Rightarrow> jsstring list \<Rightarrow> hval"
  fixResponse :: "'x response \<Rightarrow> 'x request \<Rightarrow> 'x response"
  qs_stringify :: "'x message \<Rightarrow> jsstring"
  qs_stringify_encodeValuesOnly :: "'x message \<Rightarrow> jsstring"

text \<open>The first statement of \<open>dispatch\<close>: defaults, the caller's fields that are not
  void, lower-cased headers, and the body as given.\<close>

definition with_defaults :: "'x dispatch_env \<Rightarrow> 'x request_options \<Rightarrow> 'x request" where
  "with_defaults env opts =
     \<lparr>req_url = opt_url opts,
      req_method = (case opt_method opts of None \<Rightarrow> js ''GET'' | Some m \<Rightarrow> m),
      req_headers =
        lowerHeaders env (case opt_headers opts of None \<Rightarrow> Map.empty | Some h \<Rightarrow> h),
      req_cookies = (case opt_cookies opts of None \<Rightarrow> [] | Some cs \<Rightarrow> cs),
      req_data = opt_data opts,
      req_timeout = (case opt_timeout opts of None \<Rightarrow> 30000 | Some t \<Rightarrow> t),
      req_retries = (case opt_retries opts of None \<Rightarrow> 0 | Some n \<Rightarrow> n),
      req_maxRedirects = opt_maxRedirects opts,
      req_responseType = opt_responseType opts,
      req_responseCharset = opt_responseCharset opts,
      req_proxy = opt_proxy opts\<rparr>"

definition patchQueryString :: "'x request \<Rightarrow> jsstring \<Rightarrow> 'x request" where
  "patchQueryString request query =
     (if str_includes (req_url request) (js ''?'')
      then request\<lparr>req_data := MNull, req_url := req_url request @ js ''&'' @ query\<rparr>
      else request\<lparr>req_data := MNull, req_url := req_url request @ js ''?'' @ query\<rparr>)"

definition is_get_or_head :: "jsstring \<Rightarrow> bool" where
  "is_get_or_head m = (m \<in> set [js ''GET'', js ''HEAD'', js ''get'', js ''head''])"

text \<open>\<open>trimStart(s, "?&")\<close> of lodash.\<close>

definition trimStart_query :: "jsstring \<Rightarrow> jsstring" where
  "trimStart_query s = dropWhile (\<lambda>c. c \<in> set (js ''?&'')) s"

text \<open>The \<open>if (request.data)\<close> block of \<open>dispatch\<close>.\<close>

definition patch_body :: "'x dispatch_env \<Rightarrow> 'x request \<Rightarrow> 'x request" where
  "patch_body env request =
     (if message_truthy (req_data request) then
        if typeof_object (req_data request) then
          if is_get_or_head (req_method request)
          then patchQueryString request (qs_stringify env (req_data request))
          else if extractContentType env (req_headers request (js ''content-type''))
                    = Some (js ''x-www-form-urlencoded'')
          then request\<lparr>req_data :=
                 MText (qs_stringify_encodeValuesOnly env (req_data request))\<rparr>
          else request
        else if typeof_string (req_data request) \<and> is_get_or_head (req_method request)
        then patchQueryString request
               (trimStart_query (case req_data request of MText s \<Rightarrow> s | _ \<Rightarrow> []))
        else request
      else request)"

definition normalize_request :: "'x dispatch_env \<Rightarrow> 'x request_options \<Rightarrow> 'x request" where
  "normalize_request env opts = patch_body env (with_defaults env opts)"

text \<open>The magic-variable step at the head of each attempt. \<open>url\<close> and \<open>referer\<close> are the
  values captured before the first attempt. \<open>if (referer)\<close> holds for a non-empty
  string and for every list.\<close>

definition apply_magicVars ::
  "'x dispatch_env \<Rightarrow> bool \<Rightarrow> nat \<Rightarrow> jsstring \<Rightarrow> hval option \<Rightarrow> 'x request \<Rightarrow> 'x request" where
  "apply_magicVars env magicVars k url referer request =
     (if magicVars then
        (let request1 = request\<lparr>req_url := resolveMagicVars env k url\<rparr>
         in case referer of
              None \<Rightarrow> request1
            | Some (HStr r) \<Rightarrow>
                if r \<noteq> [] then
                  request1\<lparr>req_headers :=
                    (req_headers request1)(js ''referer'' \<mapsto> HStr (resolveMagicVars env k r))\<rparr>
                else request1
            | Some (HList l) \<Rightarrow>
                request1\<lparr>req_headers :=
                  (req_headers request1)(js ''referer'' \<mapsto> resolveMagicVars_list env k l)\<rparr>)
      else request)"

text \<open>The \<open>if (error)\<close> branch of the terminal case: what is passed to \<open>reject\<close>.
  \<open>response\<close> is a local of the attempt and is undefined when the attempt threw, so
  \<open>response || null\<close> is \<open>null\<close>.\<close>

definition rejected_error :: "'x js_error \<Rightarrow> bool \<Rightarrow> 'x request \<Rightarrow> 'x js_error" where
  "rejected_error error gone request =
     (let error1 =
        (if err_isAxiosError error then
           (let stripped = error\<lparr>err_code := None, err_config := None,
                                 err_isAxiosError := False, err_toJSON := False\<rparr>
            in if gone
               then stripped\<lparr>err_message := js ''net::ERR_EMPTY_RESPONSE at '' @ req_url request\<rparr>
               else stripped)
         else error)
      in error1\<lparr>err_request := Some request, err_response := None\<rparr>)"

definition settle :: "'x dispatch_env \<Rightarrow> 'x outcome \<Rightarrow> 'x request \<Rightarrow> 'x settled" where
  "settle env out request =
     (case out of
        Threw error \<Rightarrow> Rejected (rejected_error error (isGone out) request)
      | Returned response \<Rightarrow> Resolved (fixResponse env response request))"

text \<open>
  A dispatch yields the attempts it made, each with the request handed to \<open>handle\<close> and
  the outcome, and the way the promise settles.
\<close>

record 'x dispatch_result =
  attempts :: "('x request \<times> 'x outcome) list"
  settled :: "'x settled"

text \<open>
  \<open>doRequest\<close>. The transport \<open>handle\<close> is indexed by the number of the call, since the
  network may answer each attempt differently. \<open>tick.backoff()\<close> makes the backoff
  timer fire \<open>ready\<close> with its backoff number, which is the counter of the attempt that
  asked for it; that is the argument of the next \<open>doRequest\<close>.
\<close>

function doRequest ::
  "'x dispatch_env \<Rightarrow> bool \<Rightarrow> (nat \<Rightarrow> 'x request \<Rightarrow> 'x outcome) \<Rightarrow> jsstring \<Rightarrow> hval option
     \<Rightarrow> 'x request \<Rightarrow> nat \<Rightarrow> int \<Rightarrow> 'x dispatch_result" where
  "doRequest env magicVars handle url referer request k retries0 =
     (let retries = retries0 + 1;
          request1 = apply_magicVars env magicVars k url referer request;
          out = handle k request1
      in if shouldRetry out retries (req_retries request1)
         then (let rest = doRequest env magicVars handle url referer request1 (Suc k) retries
               in rest\<lparr>attempts := (request1, out) # attempts rest\<rparr>)
         else \<lparr>attempts = [(request1, out)], settled = settle env out request1\<rparr>)"
  by pat_completeness auto

text \<open>Every retry needs the counter below \<open>request.retries\<close> or below 1, and the counter
  grows by one with each attempt, so the loop ends.\<close>

termination doRequest
proof (relation "measure (\<lambda>(env, magicVars, handle, url, referer, request, k, retries0).
          nat (max (req_retries request) 1 - retries0))", goal_cases)
  case 1
  show ?case by simp
next
  case (2 env magicVars handle url referer request k retries0 retries request1 out)
  have bound: "r < max n 1" if "shouldRetry out r n" for r n
    using that by (auto simp: shouldRetry_def split: outcome.splits if_splits)
  have same: "req_retries request1 = req_retries request"
    using 2 by (simp add: apply_magicVars_def Let_def split: option.splits hval.splits)
  from 2 bound have "retries0 + 1 < max (req_retries request1) 1"
    by blast
  with 2 same show ?case by simp
qed

text \<open>\<open>dispatch\<close>: normalise, capture \<open>url\<close> and \<open>referer\<close>, and start \<open>doRequest()\<close>, whose
  parameter defaults to \<open>-1\<close>.\<close>

definition dispatch ::
  "'x dispatch_env \<Rightarrow> 'x request_options \<Rightarrow> (nat \<Rightarrow> 'x request \<Rightarrow> 'x outcome) \<Rightarrow> bool
     \<Rightarrow> 'x dispatch_result" where
  "dispatch env opts handle magicVars =
     (let request = normalize_request env opts
      in doRequest env magicVars handle (req_url request)
           (req_headers request (js ''referer'')) request 0 (- 1))"

section \<open>\<open>Fetcher.makeRequest\<close>\<close>

text \<open>What \<open>resolveContentType\<close> of \<open>./utils\<close> returns.\<close>

record content_info =
  ci_type :: "jsstring option"
  ci_charset :: "jsstring option"
  ci_prefix :: "jsstring option"

text \<open>The fields of an \<open>AxiosResponse\<close> that \<open>makeRequest\<close> reads. \<open>ax_data\<close> is the body
  as the transport delivers it, a \<open>Buffer\<close> or, when a stream was asked for, the stream of
  these bytes. \<open>ax_responseUrl\<close> is \<open>res.request.res.responseUrl\<close>.\<close>

record axios_response =
  ax_status :: int
  ax_statusText :: jsstring
  ax_headers :: headers
  ax_data :: buffer
  ax_responseUrl :: "jsstring option"

text \<open>\<open>Axios.request\<close> resolves with a response or rejects with an error that may carry
  a response (a status that Axios does not accept).\<close>

datatype 'x axios_outcome =
    Fulfilled axios_response
  | Failed "'x js_error" "axios_response option"

record url_parts =
  url_protocol :: jsstring
  url_host :: jsstring
  url_pathname :: jsstring
  url_search :: jsstring

text \<open>
  The libraries and helpers \<open>makeRequest\<close> calls. \<open>Axios_request\<close> stands for the call
  with the options built from the request (the proxy agent included) at the given
  attempt; \<open>proxyUrl\<close> for the address string built from \<open>constructProxy\<close>;
  \<open>new_URL\<close>, \<open>iconv_decode\<close>, \<open>JSON_parse\<close> and \<open>parseXML\<close> may throw, which is \<open>Inl\<close>
  or \<open>None\<close>; the detectors return the \<open>encoding\<close> field, which may be \<open>null\<close>.
\<close>

record 'x fetch_env =
  Axios_request :: "nat \<Rightarrow> 'x request \<Rightarrow> 'x axios_outcome"
  resolveContentType :: "headers \<Rightarrow> headers \<Rightarrow> content_info"
  proxyUrl :: "'x \<Rightarrow> jsstring"
  new_URL :: "jsstring \<Rightarrow> 'x js_error + url_parts"
  iconv_decode :: "buffer \<Rightarrow> jsstring \<Rightarrow> jsstring option"
  detect :: "buffer \<Rightarrow> jsstring option"
  detectEA :: "buffer \<Rightarrow> jsstring option"
  JSON_parse :: "jsstring \<Rightarrow> 'x option"
  parseXML :: "jsstring \<Rightarrow> 'x option"

text \<open>The \<open>try\<close>/\<open>catch\<close> around \<open>Axios.request\<close>.\<close>

definition axios_result :: "'x axios_outcome \<Rightarrow> 'x js_error + axios_response" where
  "axios_result out =
     (case out of
        Fulfilled res \<Rightarrow> Inr res
      | Failed err (Some res) \<Rightarrow> Inr res
      | Failed err None \<Rightarrow> Inl err)"

text \<open>The url of the response: the final url of the transport or the request's, without
  the proxy prefix, rebuilt from its parts so that it carries no user name or password.\<close>

definition response_url ::
  "'x fetch_env \<Rightarrow> 'x request \<Rightarrow> axios_response \<Rightarrow> 'x js_error + jsstring" where
  "response_url env request res =
     (let url0 = (case ax_responseUrl res of Some u \<Rightarrow> u | None \<Rightarrow> req_url request);
          url1 = (case req_proxy request of
                    None \<Rightarrow> url0
                  | Some p \<Rightarrow>
                      if url0 \<noteq> [] \<and> proxyUrl env p \<noteq> []
                           \<and> startsWith url0 (proxyUrl env p @ js ''/'')
                      then drop (length (proxyUrl env p) + 1) url0
                      else url0)
      in case new_URL env url1 of
           Inl e \<Rightarrow> Inl e
         | Inr parts \<Rightarrow>
             Inr (url_protocol parts @ js ''//'' @ url_host parts
                    @ url_pathname parts @ url_search parts))"

fun hval_truthy :: "hval \<Rightarrow> bool" where
  "hval_truthy (HStr s) = (s \<noteq> [])"
| "hval_truthy (HList l) = True"

text \<open>The object literal bound to \<open>response\<close>.\<close>

definition initial_response :: "axios_response \<Rightarrow> jsstring \<Rightarrow> 'x response" where
  "initial_response res url =
     \<lparr>res_ok = (ax_status res \<ge> 200 \<and> ax_status res \<le> 299),
      res_url = url,
      res_status = ax_status res,
      res_statusText = ax_statusText res,
      res_headers = ax_headers res,
      res_cookies =
        (case ax_headers res (js ''set-cookie'') of
           Some v \<Rightarrow> if hval_truthy v then v else HList []
         | None \<Rightarrow> HList []),
      res_type = None,
      res_data = MNull\<rparr>"

text \<open>\<open>reqLang.includes(w)\<close> on a header value.\<close>

fun hval_includes :: "hval \<Rightarrow> jsstring \<Rightarrow> bool" where
  "hval_includes (HStr s) w = str_includes s w"
| "hval_includes (HList l) w = (w \<in> set l)"

definition apostrophe :: jsstring where
  "apostrophe = [39]"

text \<open>
  The function that ends the \<open>||\<close> chain of \<open>charset\<close>. It is only called when neither
  \<open>responseCharset\<close> nor the charset of the headers is truthy. \<open>reqLang\<close> is the
  \<open>accept-language\<close> header of the request; \<open>Fetcher.fetch\<close> always sets it, and without
  it \<open>reqLang.includes\<close> throws.
\<close>

definition detect_charset ::
  "'x fetch_env \<Rightarrow> hval option \<Rightarrow> buffer \<Rightarrow> 'x js_error + jsstring option" where
  "detect_charset env reqLang resData =
     (case reqLang of
        None \<Rightarrow>
          Inl (TypeError (js ''Cannot read property '' @ apostrophe @ js ''includes''
                 @ apostrophe @ js '' of undefined''))
      | Some l \<Rightarrow>
          if hval_includes l (js ''zh'') \<or> hval_includes l (js ''jp'')
               \<or> hval_includes l (js ''ko'')
          then Inr (detectEA env resData)
          else Inr (detect env resData))"

definition resolve_charset ::
  "'x fetch_env \<Rightarrow> 'x request \<Rightarrow> content_info \<Rightarrow> buffer \<Rightarrow> 'x js_error + jsstring option" where
  "resolve_charset env request resInfo resData =
     (if truthy (req_responseCharset request) then Inr (req_responseCharset request)
      else if truthy (ci_charset resInfo) then Inr (ci_charset resInfo)
      else detect_charset env (req_headers request (js ''accept-language'')) resData)"

text \<open>An optional string as an operand of \<open>+\<close> or as a string argument.\<close>

definition str_of :: "jsstring option \<Rightarrow> jsstring" where
  "str_of v = (case v of None \<Rightarrow> js ''undefined'' | Some s \<Rightarrow> s)"

text \<open>The preview \<open>_text\<close> of the text that could not be parsed.\<close>

definition preview :: "jsstring \<Rightarrow> jsstring" where
  "preview text = (if length text > 32 then take 29 text @ js ''...'' else text)"

text \<open>The first \<open>try\<close> of the forced branch: bytes to string.\<close>

definition forced_text ::
  "'x fetch_env \<Rightarrow> 'x request \<Rightarrow> jsstring option \<Rightarrow> buffer \<Rightarrow> 'x js_error + jsstring" where
  "forced_text env request charset resData =
     (let caught =
            (if truthy (req_responseCharset request)
             then TypeError (js ''Cannot decode the data by charset ''
                    @ str_of (req_responseCharset request))
             else TypeError (js ''Cannot decode the data as ''
                    @ str_of (req_responseType request)))
      in if resData = [] then Inr []
         else if truthy charset then
           (case iconv_decode env resData (str_of charset) of
              Some text \<Rightarrow> Inr text
            | None \<Rightarrow> Inl caught)
         else Inl caught)"

text \<open>The second \<open>try\<close> of the forced branch, entered when \<open>responseType\<close> is \<open>json\<close>.\<close>

definition forced_json ::
  "'x fetch_env \<Rightarrow> content_info \<Rightarrow> jsstring \<Rightarrow> 'x js_error + (jsstring option \<times> 'x message)" where
  "forced_json env resInfo data =
     (case (if ci_type resInfo = Some (js ''xml'') then parseXML env data
            else JSON_parse env data) of
        Some v \<Rightarrow> Inr (Some (js ''json''), MObject v)
      | None \<Rightarrow>
          Inl (TypeError (js ''Cannot decode the data '' @ apostrophe @ preview data
                 @ apostrophe @ js '' as JSON'')))"

text \<open>The auto-detect branch; its \<open>catch\<close> gives the raw bytes.\<close>

definition auto_detect ::
  "'x fetch_env \<Rightarrow> content_info \<Rightarrow> jsstring option \<Rightarrow> jsstring option \<Rightarrow> buffer
     \<Rightarrow> jsstring option \<times> 'x message" where
  "auto_detect env resInfo type charset resData =
     (if ci_prefix resInfo \<in> set [Some (js ''text''), Some (js ''application''), Some (js ''*'')]
      then
        if resData = [] then (Some (js ''text''), MText [])
        else if truthy charset then
          (case iconv_decode env resData (str_of charset) of
             None \<Rightarrow> (Some (js ''buffer''), MBuffer resData)
           | Some text \<Rightarrow>
               if type = Some (js ''json'') then
                 (case JSON_parse env text of
                    Some v \<Rightarrow> (type, MObject v)
                  | None \<Rightarrow> (Some (js ''buffer''), MBuffer resData))
               else if type = Some (js ''xml'') then
                 (case parseXML env text of
                    Some v \<Rightarrow> (Some (js ''json''), MObject v)
                  | None \<Rightarrow> (Some (js ''buffer''), MBuffer resData))
               else (Some (js ''text''), MText text))
        else (Some (js ''buffer''), MBuffer resData)
      else (Some (js ''buffer''), MBuffer resData))"

text \<open>From \<open>let resData\<close> to the assignment of \<open>response.type\<close> and \<open>response.data\<close>:
  the resolved type and data, or the error thrown.\<close>

definition resolve_data ::
  "'x fetch_env \<Rightarrow> 'x request \<Rightarrow> content_info \<Rightarrow> buffer
     \<Rightarrow> 'x js_error + (jsstring option \<times> 'x message)" where
  "resolve_data env request resInfo resData =
     (let type = or_else (req_responseType request) (ci_type resInfo)
      in case resolve_charset env request resInfo resData of
           Inl e \<Rightarrow> Inl e
         | Inr charset \<Rightarrow>
             if type = Some (js ''buffer'')
                  \<or> (type = Some (js ''octet-stream'') \<and> \<not> truthy (req_responseType request))
             then Inr (Some (js ''buffer''), MBuffer resData)
             else if truthy (req_responseType request) then
               (case forced_text env request charset resData of
                  Inl e \<Rightarrow> Inl e
                | Inr data \<Rightarrow>
                    if req_responseType request = Some (js ''json'')
                    then forced_json env resInfo data
                    else Inr (Some (js ''text''), MText data))
             else Inr (auto_detect env resInfo type charset resData))"

text \<open>
  \<open>makeRequest\<close> at attempt \<open>k\<close>. The cache of proxy agents only chooses the connection
  pool that \<open>Axios_request\<close> uses.
\<close>

definition makeRequest :: "'x fetch_env \<Rightarrow> nat \<Rightarrow> 'x request \<Rightarrow> 'x js_error + 'x response" where
  "makeRequest env k request =
     (case axios_result (Axios_request env k request) of
        Inl err \<Rightarrow> Inl err
      | Inr res \<Rightarrow>
          (let resInfo = resolveContentType env (ax_headers res) (req_headers request)
           in case response_url env request res of
                Inl e \<Rightarrow> Inl e
              | Inr url \<Rightarrow>
                  (let response = initial_response res url
                   in if req_responseType request = Some (js ''stream'')
                      then Inr (response\<lparr>res_type := Some (js ''stream''),
                                         res_data := MStream (ax_data res)\<rparr>)
                      else case resolve_data env request resInfo (ax_data res) of
                             Inl e \<Rightarrow> Inl e
                           | Inr (type, data) \<Rightarrow>
                               Inr (response\<lparr>res_type := type, res_data := data\<rparr>))))"

text \<open>\<open>makeRequest\<close> as the \<open>handle\<close> of \<open>dispatch\<close>, which is how \<open>Fetcher.fetch\<close> uses
  it.\<close>

definition makeRequest_handle :: "'x fetch_env \<Rightarrow> nat \<Rightarrow> 'x request \<Rightarrow> 'x outcome" where
  "makeRequest_handle env k request =
     (case makeRequest env k request of Inl e \<Rightarrow> Threw e | Inr response \<Rightarrow> Returned response)"

section \<open>The query of a url, as the specification speaks of it\<close>


section \<open>Example requests, responses and errors\<close>

text \<open>
  Concrete values on which the theorems below are instantiated. Objects are flat lists of
  key/value strings here, and \<open>example_stringify\<close> and \<open>example_parse\<close> stand for
  \<open>qs.stringify\<close> and \<open>qs.parse\<close> on such objects when no character needs escaping.
\<close>

type_synonym flat_object = "(jsstring \<times> jsstring) list"

fun example_stringify_pairs :: "flat_object \<Rightarrow> jsstring" where
  "example_stringify_pairs [] = []"
| "example_stringify_pairs [(key, v)] = key @ js ''='' @ v"
| "example_stringify_pairs ((key, v) # kvs) =
     key @ js ''='' @ v @ js ''&'' @ example_stringify_pairs kvs"

definition example_stringify :: "flat_object message \<Rightarrow> jsstring" where
  "example_stringify d = (case d of MObject kvs \<Rightarrow> example_stringify_pairs kvs | _ \<Rightarrow> [])"

fun split_on :: "jschar \<Rightarrow> jsstring \<Rightarrow> jsstring list" where
  "split_on c [] = [[]]"
| "split_on c (x # xs) =
     (if x = c then [] # split_on c xs
      else (case split_on c xs of [] \<Rightarrow> [[x]] | p # ps \<Rightarrow> (x # p) # ps))"

definition example_parse :: "jsstring \<Rightarrow> flat_object message" where
  "example_parse s =
     (if s = [] then MObject []
      else MObject (map (\<lambda>p. (takeWhile (\<lambda>c. c \<noteq> 61) p, drop 1 (dropWhile (\<lambda>c. c \<noteq> 61) p)))
                     (split_on 38 s)))"

definition example_env :: "flat_object dispatch_env" where
  "example_env =
     \<lparr>lowerHeaders = (\<lambda>h. h),
      extractContentType = (\<lambda>v. None),
      resolveMagicVars = (\<lambda>k u. u),
      resolveMagicVars_list = (\<lambda>k l. HList l),
      fixResponse = (\<lambda>response request. response),
      qs_stringify = example_stringify,
      qs_stringify_encodeValuesOnly = example_stringify\<rparr>"

definition example_options :: "int \<Rightarrow> flat_object request_options" where
  "example_options n =
     \<lparr>opt_url = js ''http://localhost:3000/test-retry'',
      opt_method = None, opt_headers = None, opt_cookies = None, opt_data = MNull,
      opt_timeout = None, opt_retries = Some n, opt_maxRedirects = None,
      opt_responseType = None, opt_responseCharset = None, opt_proxy = None\<rparr>"

definition example_response :: "int \<Rightarrow> flat_object response" where
  "example_response st =
     \<lparr>res_ok = (st \<ge> 200 \<and> st \<le> 299),
      res_url = js ''http://localhost:3000/test-retry'',
      res_status = st, res_statusText = [], res_headers = Map.empty,
      res_cookies = HList [], res_type = Some (js ''text''), res_data = MText []\<rparr>"

text \<open>A transport that answers 503 twice and 404 from then on.\<close>

definition example_transport :: "nat \<Rightarrow> flat_object request \<Rightarrow> flat_object outcome" where
  "example_transport k request = Returned (example_response (if k < 2 then 503 else 404))"

text \<open>An error as Axios rejects with, and the same message thrown by another transport.\<close>

definition axios_error :: "jsstring \<Rightarrow> flat_object js_error" where
  "axios_error msg =
     \<lparr>err_name = js ''Error'', err_message = msg, err_isAxiosError = True,
      err_code = Some (js ''ECONNRESET''), err_config = Some [], err_toJSON = True,
      err_request = None, err_response = None\<rparr>"

definition plain_error :: "jsstring \<Rightarrow> flat_object js_error" where
  "plain_error msg =
     \<lparr>err_name = js ''Error'', err_message = msg, err_isAxiosError = False,
      err_code = Some (js ''ECONNRESET''), err_config = None, err_toJSON = False,
      err_request = None, err_response = None\<rparr>"

text \<open>A transport that answers 503 once and throws from then on.\<close>

definition example_broken_transport ::
  "nat \<Rightarrow> flat_object request \<Rightarrow> flat_object outcome" where
  "example_broken_transport k request =
     (if k = 0 then Returned (example_response 503)
      else Threw (plain_error (js ''read ETIMEDOUT'')))"

definition example_parts :: url_parts where
  "example_parts =
     \<lparr>url_protocol = js ''http:'', url_host = js ''localhost:3000'',
      url_pathname = js ''/data'', url_search = []\<rparr>"

text \<open>A transport environment that answers with the given outcome and content type.
  The decoder knows \<open>latin1\<close> only, the detectors find nothing, and the parsers accept
  the empty object only.\<close>

definition example_fetch_env ::
  "flat_object axios_outcome \<Rightarrow> content_info \<Rightarrow> flat_object fetch_env" where
  "example_fetch_env out info =
     \<lparr>Axios_request = (\<lambda>k request. out),
      resolveContentType = (\<lambda>h rh. info),
      proxyUrl = (\<lambda>p. js ''http://127.0.0.1:3128''),
      new_URL = (\<lambda>u. Inr example_parts),
      iconv_decode = (\<lambda>b c. if c = js ''latin1'' then Some (map ucast b) else None),
      detect = (\<lambda>b. None),
      detectEA = (\<lambda>b. None),
      JSON_parse = (\<lambda>s. if s = js ''{}'' then Some [] else None),
      parseXML = (\<lambda>s. if s = js ''<root/>'' then Some [] else None)\<rparr>"

definition example_request :: "jsstring option \<Rightarrow> flat_object request" where
  "example_request rt =
     \<lparr>req_url = js ''http://localhost:3000/data'', req_method = js ''GET'',
      req_headers = [js ''accept-language'' \<mapsto> HStr (js ''en-US,en;q=0.9'')],
      req_cookies = [], req_data = MNull, req_timeout = 30000, req_retries = 0,
      req_maxRedirects = None, req_responseType = rt, req_responseCharset = None,
      req_proxy = None\<rparr>"

definition example_axios_response :: "int \<Rightarrow> buffer \<Rightarrow> axios_response" where
  "example_axios_response st body =
     \<lparr>ax_status = st, ax_statusText = [], ax_headers = Map.empty, ax_data = body,
      ax_responseUrl = None\<rparr>"

definition example_info :: "string \<Rightarrow> string \<Rightarrow> content_info" where
  "example_info pre ty =
     \<lparr>ci_type = Some (js ty), ci_charset = Some (js ''latin1''), ci_prefix = Some (js pre)\<rparr>"


text \<open>The bytes of an ASCII text.\<close>

definition ascii_bytes :: "string \<Rightarrow> buffer" where
  "ascii_bytes s = map of_char s"

section \<open>Properties of the retry loop\<close>

declare doRequest.simps [simp del]

lemma apply_magicVars_retries:
  "req_retries (apply_magicVars env mv k url referer request) = req_retries request"
  by (simp add: apply_magicVars_def Let_def split: option.splits hval.splits)

lemma doRequest_stop:
  assumes "\<not> shouldRetry (handle k (apply_magicVars env mv k url referer request)) (retries0 + 1)
        (req_retries request)"
  shows "doRequest env mv handle url referer request k retries0 =
     \<lparr>attempts = [(apply_magicVars env mv k url referer request,
                    handle k (apply_magicVars env mv k url referer request))],
      settled = settle env (handle k (apply_magicVars env mv k url referer request))
                  (apply_magicVars env mv k url referer request)\<rparr>"
  using assms by (subst doRequest.simps) (simp add: Let_def apply_magicVars_retries)

lemma doRequest_retry:
  assumes "shouldRetry (handle k (apply_magicVars env mv k url referer request)) (retries0 + 1)
        (req_retries request)"
  shows "doRequest env mv handle url referer request k retries0 =
     (doRequest env mv handle url referer (apply_magicVars env mv k url referer request)
         (Suc k) (retries0 + 1))
     \<lparr>attempts := (apply_magicVars env mv k url referer request,
                    handle k (apply_magicVars env mv k url referer request))
          # attempts (doRequest env mv handle url referer
               (apply_magicVars env mv k url referer request) (Suc k) (retries0 + 1))\<rparr>"
  using assms by (subst doRequest.simps) (simp add: Let_def apply_magicVars_retries)

text \<open>A run makes at least one attempt and settles on the last one.\<close>

lemma doRequest_settles_last:
  "attempts (doRequest env mv handle url referer request k retries0) \<noteq> [] \<and>
   settled (doRequest env mv handle url referer request k retries0) =
     settle env (snd (last (attempts (doRequest env mv handle url referer request k retries0))))
                (fst (last (attempts (doRequest env mv handle url referer request k retries0))))"
proof (induction env mv handle url referer request k retries0 rule: doRequest.induct)
  case (1 env mv handle url referer request k retries0)
  let ?rq = "apply_magicVars env mv k url referer request"
  show ?case
  proof (cases "shouldRetry (handle k ?rq) (retries0 + 1) (req_retries request)")
    case True
    then have "shouldRetry (handle k ?rq) (retries0 + 1) (req_retries ?rq)"
      by (simp add: apply_magicVars_retries)
    from "1.IH" [OF refl refl refl this] True show ?thesis
      by (simp add: doRequest_retry)
  next
    case False
    then show ?thesis
      by (simp add: doRequest_stop)
  qed
qed

text \<open>Every attempt but the last was one the policy asked to retry.\<close>

lemma doRequest_retried:
  "a \<in> set (butlast (attempts (doRequest env mv handle url referer request k retries0))) \<Longrightarrow>
   \<exists>r. retries0 < r \<and> shouldRetry (snd a) r (req_retries request)"
proof (induction env mv handle url referer request k retries0 rule: doRequest.induct)
  case (1 env mv handle url referer request k retries0)
  let ?rq = "apply_magicVars env mv k url referer request"
  show ?case
  proof (cases "shouldRetry (handle k ?rq) (retries0 + 1) (req_retries request)")
    case True
    then have sr: "shouldRetry (handle k ?rq) (retries0 + 1) (req_retries ?rq)"
      by (simp add: apply_magicVars_retries)
    have ne: "attempts (doRequest env mv handle url referer ?rq (Suc k) (retries0 + 1)) \<noteq> []"
      using doRequest_settles_last by blast
    from "1.prems" True ne
    consider "a = (?rq, handle k ?rq)"
      | "a \<in> set (butlast (attempts (doRequest env mv handle url referer ?rq (Suc k) (retries0 + 1))))"
      by (auto simp: doRequest_retry)
    then show ?thesis
    proof cases
      case 1
      with True show ?thesis by (intro exI [of _ "retries0 + 1"]) simp
    next
      case 2
      from "1.IH" [OF refl refl refl sr 2] obtain r
        where "retries0 + 1 < r" "shouldRetry (snd a) r (req_retries request)"
        by (auto simp: apply_magicVars_retries)
      then show ?thesis by (intro exI [of _ r]) simp
    qed
  next
    case False
    with "1.prems" show ?thesis
      by (simp add: doRequest_stop)
  qed
qed

text \<open>The attempts are the calls of the transport in order, each with the same
  \<open>retries\<close>, and attempt \<open>i\<close> is followed by another one exactly when the policy says
  so at its counter.\<close>

lemma doRequest_attempt:
  "i < length (attempts (doRequest env mv handle url referer request k retries0)) \<Longrightarrow>
   snd (attempts (doRequest env mv handle url referer request k retries0) ! i)
     = handle (k + i) (fst (attempts (doRequest env mv handle url referer request k retries0) ! i))
   \<and> req_retries (fst (attempts (doRequest env mv handle url referer request k retries0) ! i))
       = req_retries request
   \<and> (Suc i < length (attempts (doRequest env mv handle url referer request k retries0))
        \<longleftrightarrow> shouldRetry
              (snd (attempts (doRequest env mv handle url referer request k retries0) ! i))
              (retries0 + 1 + int i) (req_retries request))"
proof (induction env mv handle url referer request k retries0 arbitrary: i
    rule: doRequest.induct)
  case (1 env mv handle url referer request k retries0)
  let ?rq = "apply_magicVars env mv k url referer request"
  show ?case
  proof (cases "shouldRetry (handle k ?rq) (retries0 + 1) (req_retries request)")
    case True
    then have sr: "shouldRetry (handle k ?rq) (retries0 + 1) (req_retries ?rq)"
      by (simp add: apply_magicVars_retries)
    let ?rest = "doRequest env mv handle url referer ?rq (Suc k) (retries0 + 1)"
    have ne: "attempts ?rest \<noteq> []"
      using doRequest_settles_last by blast
    have unfold: "attempts (doRequest env mv handle url referer request k retries0)
        = (?rq, handle k ?rq) # attempts ?rest"
      using True by (simp add: doRequest_retry)
    show ?thesis
    proof (cases i)
      case 0
      with True ne show ?thesis
        by (simp add: unfold apply_magicVars_retries)
    next
      case (Suc j)
      with "1.prems" have "j < length (attempts ?rest)"
        by (simp add: unfold)
      from "1.IH" [OF refl refl refl sr this] Suc show ?thesis
        by (simp add: unfold apply_magicVars_retries add.commute add.left_commute)
    qed
  next
    case False
    with "1.prems" show ?thesis
      by (simp add: doRequest_stop apply_magicVars_retries)
  qed
qed

lemma last_or_butlast:
  "xs \<noteq> [] \<Longrightarrow> a \<in> set xs \<Longrightarrow> a \<notin> set (butlast xs) \<Longrightarrow> last xs = a"
  by (metis append_butlast_last_id in_set_conv_decomp_first in_set_butlast_appendI
      last_in_set set_ConsD snoc_eq_iff_butlast list.set_intros(1) Un_iff set_append empty_iff empty_set)


section \<open>Claims about the dispatcher\<close>

text \<open>
  C3. Take any attempt of a dispatch in which the transport call returned a response;
  it is attempt \<open>i\<close>, counting from 0, so \<open>i\<close> is its attempt counter. The dispatcher
  makes another transport call after it exactly when the response is not ok, \<open>i\<close> is
  below \<open>request.retries\<close> and the status is one of 408, 409, 425, 500, 502, 503, 504.
  When no call follows, the dispatch resolves with that response, ok or not (passed
  through \<open>fixResponse\<close>); it does not reject.
\<close>

theorem response_retry_rule:
  assumes "i < length (attempts (dispatch env opts handle magicVars))"
    and "attempts (dispatch env opts handle magicVars) ! i = (request, Returned response)"
  shows "handle i request = Returned response
    \<and> req_retries request = req_retries (normalize_request env opts)
    \<and> (Suc i < length (attempts (dispatch env opts handle magicVars)) \<longleftrightarrow>
          \<not> res_ok response \<and> int i < req_retries request
            \<and> res_status response \<in> {408, 409, 425, 500, 502, 503, 504})
    \<and> (Suc i = length (attempts (dispatch env opts handle magicVars)) \<longrightarrow>
          settled (dispatch env opts handle magicVars)
            = Resolved (fixResponse env response request))"
proof -
  let ?rq0 = "normalize_request env opts"
  let ?R = "doRequest env magicVars handle (req_url ?rq0) (req_headers ?rq0 (js ''referer''))
              ?rq0 0 (- 1)"
  have D: "dispatch env opts handle magicVars = ?R"
    by (simp add: dispatch_def Let_def)
  from assms have i: "i < length (attempts ?R)" and a: "attempts ?R ! i = (request, Returned response)"
    by (simp_all add: D)
  from doRequest_attempt [OF i] a
  have h: "handle i request = Returned response"
    and r: "req_retries request = req_retries ?rq0"
    and f: "Suc i < length (attempts ?R)
        \<longleftrightarrow> shouldRetry (Returned response) (int i) (req_retries ?rq0)"
    by simp_all
  from f r have followed: "Suc i < length (attempts ?R) \<longleftrightarrow>
          \<not> res_ok response \<and> int i < req_retries request
            \<and> res_status response \<in> {408, 409, 425, 500, 502, 503, 504}"
    by (auto simp: shouldRetry_def RetryableStatuses_def)
  have "settled ?R = Resolved (fixResponse env response request)"
    if "Suc i = length (attempts ?R)"
  proof -
    from that a have "last (attempts ?R) = (request, Returned response)"
      by (metis diff_Suc_1 last_conv_nth length_0_conv nat.distinct(1))
    with doRequest_settles_last [of env magicVars handle "req_url ?rq0"
        "req_headers ?rq0 (js ''referer'')" ?rq0 0 "- 1"]
    show ?thesis by (simp add: settle_def)
  qed
  with h r followed show ?thesis
    by (simp add: D)
qed

theorem response_retry_rule_witness:
  "attempts (dispatch example_env (example_options 3) example_transport False)
     = [(normalize_request example_env (example_options 3), Returned (example_response 503)),
        (normalize_request example_env (example_options 3), Returned (example_response 503)),
        (normalize_request example_env (example_options 3), Returned (example_response 404))]
   \<and> (Suc 0 < length (attempts (dispatch example_env (example_options 3) example_transport False))
        \<longleftrightarrow> \<not> res_ok (example_response 503)
            \<and> int 0 < req_retries (normalize_request example_env (example_options 3))
            \<and> res_status (example_response 503) \<in> {408, 409, 425, 500, 502, 503, 504})
   \<and> \<not> res_ok (example_response 404)
   \<and> settled (dispatch example_env (example_options 3) example_transport False)
       = Resolved (example_response 404)"
proof -
  let ?rq = "normalize_request example_env (example_options 3)"
  let ?D = "dispatch example_env (example_options 3) example_transport False"
  have n: "req_retries ?rq = 3"
    by (simp add: normalize_request_def patch_body_def with_defaults_def example_options_def)
  have sr: "shouldRetry (example_transport k request) r 3 \<longleftrightarrow> k < 2 \<and> r < 3" for k request r
    by (simp add: shouldRetry_def example_transport_def example_response_def
        RetryableStatuses_def)
  have m: "apply_magicVars example_env False k url referer request = request"
    for k url referer and request :: "flat_object request"
    by (simp add: apply_magicVars_def)
  have a: "attempts ?D
     = [(?rq, Returned (example_response 503)), (?rq, Returned (example_response 503)),
        (?rq, Returned (example_response 404))]"
    by (simp add: dispatch_def Let_def doRequest_retry doRequest_stop m n sr)
      (simp add: example_transport_def)
  have f: "fixResponse example_env = (\<lambda>response request. response)"
    by (simp add: example_env_def)
  have i0: "0 < length (attempts ?D)" and a0: "attempts ?D ! 0 = (?rq, Returned (example_response 503))"
    and i2: "2 < length (attempts ?D)" and a2: "attempts ?D ! 2 = (?rq, Returned (example_response 404))"
    by (simp_all add: a)
  from response_retry_rule [OF i0 a0]
  have first: "Suc 0 < length (attempts ?D)
        \<longleftrightarrow> \<not> res_ok (example_response 503) \<and> int 0 < req_retries ?rq
            \<and> res_status (example_response 503) \<in> {408, 409, 425, 500, 502, 503, 504}"
    by blast
  from response_retry_rule [OF i2 a2] a
  have third: "settled ?D = Resolved (example_response 404)"
    by (simp add: f)
  have "\<not> res_ok (example_response 404)"
    by (simp add: example_response_def)
  with a first third show ?thesis by blast
qed

text \<open>A hang-up is only retried by the attempt whose counter is 0.\<close>

lemma no_hang_up_retry_later:
  assumes "0 \<le> retries0"
  shows "filter (\<lambda>a. isGone (snd a))
     (butlast (attempts (doRequest env mv handle url referer request k retries0))) = []"
proof -
  have "\<not> isGone (snd a)"
    if "a \<in> set (butlast (attempts (doRequest env mv handle url referer request k retries0)))"
    for a
  proof -
    from doRequest_retried [OF that] obtain r
      where "retries0 < r" "shouldRetry (snd a) r (req_retries request)" by blast
    with assms show ?thesis
      by (auto simp: shouldRetry_def isGone_def split: outcome.splits if_splits)
  qed
  then show ?thesis
    by (auto simp: filter_empty_conv)
qed

lemma hang_up_retry_once:
  "length (filter (\<lambda>a. isGone (snd a))
     (butlast (attempts (doRequest env mv handle url referer request k (- 1))))) \<le> 1"
proof (cases "shouldRetry (handle k (apply_magicVars env mv k url referer request)) (- 1 + 1)
                (req_retries request)")
  case True
  let ?rq = "apply_magicVars env mv k url referer request"
  have ne: "attempts (doRequest env mv handle url referer ?rq (Suc k) (- 1 + 1)) \<noteq> []"
    using doRequest_settles_last by blast
  have "filter (\<lambda>a. isGone (snd a))
          (butlast (attempts (doRequest env mv handle url referer ?rq (Suc k) (- 1 + 1)))) = []"
    by (rule no_hang_up_retry_later) simp
  with ne True show ?thesis
    by (simp add: doRequest_retry)
next
  case False
  then show ?thesis by (simp add: doRequest_stop)
qed

lemma all_hang_up_two_calls:
  assumes "\<And>k rq. isGone (handle k rq)"
  shows "length (attempts (doRequest env mv handle url referer request k (- 1))) = 2"
proof -
  let ?rq = "apply_magicVars env mv k url referer request"
  let ?rq2 = "apply_magicVars env mv (Suc k) url referer ?rq"
  have sr: "shouldRetry (handle k' rq') r n = (r < 1)" for k' rq' r n
    using assms [of k' rq'] by (auto simp: shouldRetry_def isGone_def split: outcome.splits)
  have 1: "shouldRetry (handle k ?rq) (- 1 + 1) (req_retries request)"
    by (simp add: sr)
  have 2: "\<not> shouldRetry (handle (Suc k) ?rq2) (- 1 + 1 + 1) (req_retries ?rq)"
    by (simp add: sr)
  from 1 2 show ?thesis
    by (simp add: doRequest_retry doRequest_stop apply_magicVars_retries)
qed

text \<open>
  C4. A thrown error whose description matches the hang-up pattern is retried exactly
  when the attempt counter is below 1, whatever \<open>request.retries\<close> is. So in any
  dispatch at most one attempt that ended in a hang-up was retried, and a transport that
  hangs up on every call is called twice: the first call and one retry.
\<close>
theorem hang_up_retried_once:
  "(HangUpPattern (error_toString error) \<longrightarrow>
      (\<forall>retries n. shouldRetry (Threw error) retries n = (retries < 1)))
   \<and> length (filter (\<lambda>a. isGone (snd a))
        (butlast (attempts (dispatch env opts handle magicVars)))) \<le> 1
   \<and> ((\<forall>k request. isGone (handle k request)) \<longrightarrow>
        length (attempts (dispatch env opts handle magicVars)) = 2)"
proof -
  have "length (filter (\<lambda>a. isGone (snd a))
        (butlast (attempts (dispatch env opts handle magicVars)))) \<le> 1"
    unfolding dispatch_def Let_def by (rule hang_up_retry_once)
  moreover have "length (attempts (dispatch env opts handle magicVars)) = 2"
    if "\<forall>k request. isGone (handle k request)"
    unfolding dispatch_def Let_def using that by (intro all_hang_up_two_calls) simp
  ultimately show ?thesis
    by (simp add: shouldRetry_def)
qed

theorem hang_up_retried_once_witness:
  "HangUpPattern (error_toString (axios_error (js ''socket hang up'')))
   \<and> shouldRetry (Threw (axios_error (js ''socket hang up''))) 0 0
   \<and> \<not> shouldRetry (Threw (axios_error (js ''socket hang up''))) 1 5
   \<and> (\<forall>k request. isGone (Threw (axios_error (js ''socket hang up''))))
   \<and> length (attempts (dispatch example_env (example_options 0)
         (\<lambda>k request. Threw (axios_error (js ''socket hang up''))) False)) = 2
   \<and> length (attempts (dispatch example_env (example_options 5)
         (\<lambda>k request. Threw (axios_error (js ''socket hang up''))) False)) = 2"
proof -
  have h: "HangUpPattern (error_toString (axios_error (js ''socket hang up'')))"
    by code_simp
  then have g: "isGone (Threw (axios_error (js ''socket hang up'')))"
    by (simp add: isGone_def)
  from h g
    hang_up_retried_once [of "axios_error (js ''socket hang up'')" example_env "example_options 0"
      "\<lambda>k request. Threw (axios_error (js ''socket hang up''))" False]
    hang_up_retried_once [of "axios_error (js ''socket hang up'')" example_env "example_options 5"
      "\<lambda>k request. Threw (axios_error (js ''socket hang up''))" False]
  show ?thesis by simp
qed

text \<open>
  C5. The hang-up pattern is tested first. An error whose description matches both the
  unretryable and the hang-up pattern is retried once: the message below is the kind a
  browser transport gives, the failed url after the reason.
\<close>
theorem unretryable_counterexample:
  "UnretryablePattern (error_toString
      (plain_error (js ''net::ERR_CONNECTION_REFUSED at http://a.io/?q=net::ERR_EMPTY_RESPONSE'')))
   \<and> shouldRetry (Threw
      (plain_error (js ''net::ERR_CONNECTION_REFUSED at http://a.io/?q=net::ERR_EMPTY_RESPONSE''))) 0 3
   \<and> length (attempts (dispatch example_env (example_options 3)
        (\<lambda>k request. Threw
          (plain_error (js ''net::ERR_CONNECTION_REFUSED at http://a.io/?q=net::ERR_EMPTY_RESPONSE'')))
        False)) = 2"
proof -
  let ?e = "plain_error (js ''net::ERR_CONNECTION_REFUSED at http://a.io/?q=net::ERR_EMPTY_RESPONSE'')"
  have h: "HangUpPattern (error_toString ?e)"
    by code_simp
  have u: "UnretryablePattern (error_toString ?e)"
    by code_simp
  have sr: "shouldRetry (Threw ?e) r n = (r < 1)" for r n
    using h by (simp add: shouldRetry_def)
  have "length (attempts (dispatch example_env (example_options 3) (\<lambda>k request. Threw ?e) False)) = 2"
    by (simp add: dispatch_def Let_def doRequest_retry doRequest_stop sr)
  with u sr show ?thesis by simp
qed

text \<open>
  C5, amended. An attempt that threw an error matching the unretryable pattern and not
  the hang-up pattern is never retried, whatever the counter and \<open>request.retries\<close>
  are: it is the last attempt of the dispatch, which rejects with that error.
\<close>

theorem unretryable_never_retried:
  assumes "(request, Threw error) \<in> set (attempts (dispatch env opts handle magicVars))"
    and "UnretryablePattern (error_toString error)"
    and "\<not> HangUpPattern (error_toString error)"
  shows "(\<forall>retries n. \<not> shouldRetry (Threw error) retries n)
    \<and> (request, Threw error) \<notin> set (butlast (attempts (dispatch env opts handle magicVars)))
    \<and> last (attempts (dispatch env opts handle magicVars)) = (request, Threw error)
    \<and> settled (dispatch env opts handle magicVars)
        = Rejected (rejected_error error False request)"
proof -
  let ?D = "dispatch env opts handle magicVars"
  let ?rq0 = "normalize_request env opts"
  have D: "?D = doRequest env magicVars handle (req_url ?rq0) (req_headers ?rq0 (js ''referer''))
             ?rq0 0 (- 1)"
    by (simp add: dispatch_def Let_def)
  have never: "\<not> shouldRetry (Threw error) retries n" for retries n
    using assms(2,3) by (simp add: shouldRetry_def)
  have nb: "(request, Threw error) \<notin> set (butlast (attempts ?D))"
  proof
    assume "(request, Threw error) \<in> set (butlast (attempts ?D))"
    then obtain r where "shouldRetry (snd (request, Threw error)) r (req_retries ?rq0)"
      unfolding D using doRequest_retried by blast
    with never show False by simp
  qed
  have ne: "attempts ?D \<noteq> []"
    unfolding D using doRequest_settles_last by blast
  have l: "last (attempts ?D) = (request, Threw error)"
    using ne assms(1) nb by (rule last_or_butlast)
  have "settled ?D = settle env (snd (last (attempts ?D))) (fst (last (attempts ?D)))"
    unfolding D using doRequest_settles_last by blast
  with l assms(3) have "settled ?D = Rejected (rejected_error error False request)"
    by (simp add: settle_def isGone_def)
  with never nb l show ?thesis by simp
qed

theorem unretryable_never_retried_witness:
  "UnretryablePattern (error_toString
      (axios_error (js ''connect ECONNREFUSED 127.0.0.1:3228'')))
   \<and> \<not> HangUpPattern (error_toString
      (axios_error (js ''connect ECONNREFUSED 127.0.0.1:3228'')))
   \<and> attempts (dispatch example_env (example_options 3)
        (\<lambda>k request. Threw (axios_error (js ''connect ECONNREFUSED 127.0.0.1:3228''))) False)
      = [(normalize_request example_env (example_options 3),
          Threw (axios_error (js ''connect ECONNREFUSED 127.0.0.1:3228'')))]
   \<and> settled (dispatch example_env (example_options 3)
        (\<lambda>k request. Threw (axios_error (js ''connect ECONNREFUSED 127.0.0.1:3228''))) False)
       = Rejected (rejected_error (axios_error (js ''connect ECONNREFUSED 127.0.0.1:3228'')) False
           (normalize_request example_env (example_options 3)))"
proof -
  let ?e = "axios_error (js ''connect ECONNREFUSED 127.0.0.1:3228'')"
  let ?D = "dispatch example_env (example_options 3) (\<lambda>k request. Threw ?e) False"
  have h: "\<not> HangUpPattern (error_toString ?e)"
    by code_simp
  have u: "UnretryablePattern (error_toString ?e)"
    by code_simp
  have sr: "\<not> shouldRetry (Threw ?e) r n" for r n
    using h u by (simp add: shouldRetry_def)
  have a: "attempts ?D = [(normalize_request example_env (example_options 3), Threw ?e)]"
    by (simp add: dispatch_def Let_def doRequest_stop sr apply_magicVars_def)
  then have m: "(normalize_request example_env (example_options 3), Threw ?e) \<in> set (attempts ?D)"
    by simp
  from unretryable_never_retried [OF m u h] a h u show ?thesis by simp
qed


text \<open>
  C7. The stripping of the Axios fields and the rewriting of the message are inside
  \<open>if (error["isAxiosError"])\<close>. An error of another transport that ends a dispatch by
  the hang-up rule keeps its message and its \<open>code\<close>.
\<close>
theorem rejected_error_counterexample:
  "HangUpPattern (error_toString (plain_error (js ''socket hang up'')))
   \<and> settled (dispatch example_env (example_options 0)
        (\<lambda>k request. Threw (plain_error (js ''socket hang up''))) False)
      = Rejected
          \<lparr>err_name = js ''Error'', err_message = js ''socket hang up'',
           err_isAxiosError = False, err_code = Some (js ''ECONNRESET''),
           err_config = None, err_toJSON = False,
           err_request = Some (normalize_request example_env (example_options 0)),
           err_response = None\<rparr>"
proof -
  let ?e = "plain_error (js ''socket hang up'')"
  have h: "HangUpPattern (error_toString ?e)"
    by code_simp
  have sr: "shouldRetry (Threw ?e) r n = (r < 1)" for r n
    using h by (simp add: shouldRetry_def)
  have "settled (dispatch example_env (example_options 0) (\<lambda>k request. Threw ?e) False)
      = Rejected (rejected_error ?e True (normalize_request example_env (example_options 0)))"
    using h
    by (simp add: dispatch_def Let_def doRequest_retry doRequest_stop sr settle_def isGone_def
        apply_magicVars_def)
  with h show ?thesis
    by (simp add: rejected_error_def plain_error_def)
qed

text \<open>
  C7, amended. When a dispatch rejects, its last attempt threw, and the error passed to
  \<open>reject\<close> carries the request of that attempt in \<open>request\<close>. If the thrown error is
  marked \<open>isAxiosError\<close>, then \<open>code\<close>, \<open>config\<close>, \<open>isAxiosError\<close> and \<open>toJSON\<close> are
  removed, and the message becomes \<open>net::ERR_EMPTY_RESPONSE at\<close> followed by the request
  url when the error matched the hang-up pattern; otherwise the name, the message and
  these four fields are as they were thrown. Nothing is said of \<open>response\<close>.
\<close>

theorem rejected_error_shape:
  assumes "settled (dispatch env opts handle magicVars) = Rejected exposed"
  shows "\<exists>request error.
      last (attempts (dispatch env opts handle magicVars)) = (request, Threw error)
      \<and> err_request exposed = Some request
      \<and> err_name exposed = err_name error
      \<and> (if err_isAxiosError error
         then err_code exposed = None \<and> err_config exposed = None
              \<and> \<not> err_isAxiosError exposed \<and> \<not> err_toJSON exposed
              \<and> err_message exposed =
                  (if HangUpPattern (error_toString error)
                   then js ''net::ERR_EMPTY_RESPONSE at '' @ req_url request
                   else err_message error)
         else err_code exposed = err_code error \<and> err_config exposed = err_config error
              \<and> \<not> err_isAxiosError exposed \<and> err_toJSON exposed = err_toJSON error
              \<and> err_message exposed = err_message error)"
proof -
  let ?D = "dispatch env opts handle magicVars"
  let ?rq0 = "normalize_request env opts"
  have D: "?D = doRequest env magicVars handle (req_url ?rq0) (req_headers ?rq0 (js ''referer''))
             ?rq0 0 (- 1)"
    by (simp add: dispatch_def Let_def)
  have s: "settled ?D = settle env (snd (last (attempts ?D))) (fst (last (attempts ?D)))"
    unfolding D using doRequest_settles_last by blast
  obtain request out where l: "last (attempts ?D) = (request, out)"
    by (cases "last (attempts ?D)")
  show ?thesis
  proof (cases out)
    case (Returned response)
    with s l assms show ?thesis by (simp add: settle_def)
  next
    case (Threw error)
    with s l assms
    have e: "exposed = rejected_error error (HangUpPattern (error_toString error)) request"
      by (simp add: settle_def isGone_def)
    have "err_request exposed = Some request" "err_name exposed = err_name error"
      by (simp_all add: e rejected_error_def Let_def)
    moreover have "err_code exposed = None \<and> err_config exposed = None
              \<and> \<not> err_isAxiosError exposed \<and> \<not> err_toJSON exposed
              \<and> err_message exposed =
                  (if HangUpPattern (error_toString error)
                   then js ''net::ERR_EMPTY_RESPONSE at '' @ req_url request
                   else err_message error)" if "err_isAxiosError error"
      using that by (simp add: e rejected_error_def Let_def)
    moreover have "err_code exposed = err_code error \<and> err_config exposed = err_config error
              \<and> \<not> err_isAxiosError exposed \<and> err_toJSON exposed = err_toJSON error
              \<and> err_message exposed = err_message error"
      if "\<not> err_isAxiosError error"
      using that by (simp add: e rejected_error_def Let_def)
    ultimately show ?thesis
      using l Threw by (intro exI [of _ request] exI [of _ error]) simp
  qed
qed

theorem rejected_error_shape_witness:
  "settled (dispatch example_env (example_options 3)
        (\<lambda>k request. Threw (axios_error (js ''socket hang up''))) False)
      = Rejected
          \<lparr>err_name = js ''Error'',
           err_message = js ''net::ERR_EMPTY_RESPONSE at http://localhost:3000/test-retry'',
           err_isAxiosError = False, err_code = None,
           err_config = None, err_toJSON = False,
           err_request = Some (normalize_request example_env (example_options 3)),
           err_response = None\<rparr>
   \<and> (\<exists>error.
        last (attempts (dispatch example_env (example_options 3)
          (\<lambda>k request. Threw (axios_error (js ''socket hang up''))) False))
        = (normalize_request example_env (example_options 3), Threw error)
        \<and> err_isAxiosError error \<and> HangUpPattern (error_toString error))"
proof -
  let ?e = "axios_error (js ''socket hang up'')"
  let ?D = "dispatch example_env (example_options 3) (\<lambda>k request. Threw ?e) False"
  let ?rq = "normalize_request example_env (example_options 3)"
  let ?exposed = "\<lparr>err_name = js ''Error'',
           err_message = js ''net::ERR_EMPTY_RESPONSE at http://localhost:3000/test-retry'',
           err_isAxiosError = False, err_code = None,
           err_config = None, err_toJSON = False,
           err_request = Some ?rq, err_response = None\<rparr> :: flat_object js_error"
  have h: "HangUpPattern (error_toString ?e)"
    by code_simp
  have sr: "shouldRetry (Threw ?e) r n = (r < 1)" for r n
    using h by (simp add: shouldRetry_def)
  have u: "req_url ?rq = js ''http://localhost:3000/test-retry''"
    by (simp add: normalize_request_def with_defaults_def patch_body_def example_options_def)
  have m: "js ''net::ERR_EMPTY_RESPONSE at '' @ js ''http://localhost:3000/test-retry''
      = js ''net::ERR_EMPTY_RESPONSE at http://localhost:3000/test-retry''"
    by (simp add: js_def)
  have "settled ?D = Rejected (rejected_error ?e True ?rq)"
    using h
    by (simp add: dispatch_def Let_def doRequest_retry doRequest_stop sr settle_def isGone_def
        apply_magicVars_def)
  with u m have s: "settled ?D = Rejected ?exposed"
    by (simp add: rejected_error_def axios_error_def)
  from rejected_error_shape [OF s] obtain request error
    where l: "last (attempts ?D) = (request, Threw error)"
      and r: "err_request ?exposed = Some request"
    by blast
  from r have rq: "request = ?rq" by simp
  have "last (attempts ?D) = (?rq, Threw ?e)"
    by (simp add: dispatch_def Let_def doRequest_retry doRequest_stop sr apply_magicVars_def)
  with l have "error = ?e" by simp
  with h have "err_isAxiosError error \<and> HangUpPattern (error_toString error)"
    by (simp add: axios_error_def)
  with s l rq show ?thesis by blast
qed

text \<open>The \<open>response\<close> of the error is the local of the attempt that threw: a response
  that an earlier attempt of the same dispatch received is not carried over.\<close>

lemma earlier_response_not_carried:
  "attempts (dispatch example_env (example_options 1) example_broken_transport False)
     = [(normalize_request example_env (example_options 1), Returned (example_response 503)),
        (normalize_request example_env (example_options 1),
         Threw (plain_error (js ''read ETIMEDOUT'')))]
   \<and> settled (dispatch example_env (example_options 1) example_broken_transport False)
       = Rejected ((plain_error (js ''read ETIMEDOUT''))
           \<lparr>err_request := Some (normalize_request example_env (example_options 1)),
            err_response := None\<rparr>)"
proof -
  let ?e = "plain_error (js ''read ETIMEDOUT'')"
  let ?rq = "normalize_request example_env (example_options 1)"
  have n: "req_retries ?rq = 1"
    by (simp add: normalize_request_def patch_body_def with_defaults_def example_options_def)
  have h: "\<not> HangUpPattern (error_toString ?e)"
    by code_simp
  have u: "\<not> UnretryablePattern (error_toString ?e)"
    by code_simp
  have sr: "shouldRetry (example_broken_transport k request) r 1 \<longleftrightarrow> r < 1" for k request r
    using h u
    by (simp add: shouldRetry_def example_broken_transport_def example_response_def
        RetryableStatuses_def)
  have m: "apply_magicVars example_env False k url referer request = request"
    for k url referer and request :: "flat_object request"
    by (simp add: apply_magicVars_def)
  show ?thesis
    using h
    by (simp add: dispatch_def Let_def doRequest_retry doRequest_stop m n sr)
      (simp add: example_broken_transport_def settle_def isGone_def rejected_error_def
        plain_error_def)
qed

section \<open>Claims about the normalisation of the request\<close>






section \<open>Properties of \<open>makeRequest\<close>\<close>

text \<open>Once the transport has delivered a response and its url is well formed, the
  result is the stream response or the resolved body.\<close>

lemma makeRequest_received:
  assumes "axios_result (Axios_request env k request) = Inr res"
    and "response_url env request res = Inr url"
  shows "makeRequest env k request =
     (if req_responseType request = Some (js ''stream'')
      then Inr ((initial_response res url)
                  \<lparr>res_type := Some (js ''stream''), res_data := MStream (ax_data res)\<rparr>)
      else case resolve_data env request
                  (resolveContentType env (ax_headers res) (req_headers request)) (ax_data res) of
             Inl e \<Rightarrow> Inl e
           | Inr (type, data) \<Rightarrow>
               Inr ((initial_response res url)\<lparr>res_type := type, res_data := data\<rparr>))"
  using assms by (simp add: makeRequest_def Let_def)

text \<open>The \<open>ok\<close> flag of every response of \<open>makeRequest\<close> says that the status is between
  200 and 299.\<close>

lemma makeRequest_ok:
  assumes "makeRequest env k request = Inr response"
  shows "res_ok response \<longleftrightarrow> 200 \<le> res_status response \<and> res_status response \<le> 299"
  using assms
  by (auto simp: makeRequest_def Let_def initial_response_def
      split: sum.splits if_splits prod.splits)

text \<open>So the dispatcher sees a 304 of \<open>makeRequest\<close> as not ok; it does not retry it,
  since 304 is not a retryable status.\<close>

lemma makeRequest_handle_304:
  assumes "makeRequest_handle env k request = Returned response"
    and "res_status response = 304"
  shows "\<not> res_ok response \<and> \<not> shouldRetry (Returned response) retries n"
proof -
  from assms(1) have "makeRequest env k request = Inr response"
    by (simp add: makeRequest_handle_def split: sum.splits)
  from makeRequest_ok [OF this] assms(2) show ?thesis
    by (simp add: shouldRetry_def RetryableStatuses_def)
qed

text \<open>With the \<open>accept-language\<close> header set, the charset is resolved without an error.\<close>

lemma resolve_charset_total:
  assumes "req_headers request (js ''accept-language'') \<noteq> None"
  shows "\<exists>charset. resolve_charset env request resInfo resData = Inr charset"
  using assms by (auto simp: resolve_charset_def detect_charset_def)

lemma literal_facts:
  "js ''json'' \<noteq> js ''buffer''" "js ''json'' \<noteq> js ''octet-stream''"
  "js ''json'' \<noteq> js ''stream''" "js ''json'' \<noteq> js ''text''" "js ''json'' \<noteq> js ''xml''"
  "js ''text'' \<noteq> js ''buffer''" "js ''text'' \<noteq> js ''octet-stream''"
  "js ''text'' \<noteq> js ''stream''" "js ''text'' \<noteq> js ''json''"
  "js ''xml'' \<noteq> js ''json''"
  "js ''json'' \<noteq> []" "js ''text'' \<noteq> []" "js ''stream'' \<noteq> []"
  by (simp_all add: js_def)

section \<open>Claims about \<open>makeRequest\<close>\<close>

text \<open>
  C10. With \<open>responseType\<close> \<open>stream\<close>, once the transport has delivered a response, the
  result has type \<open>stream\<close> and the transport's stream as data. The charset detectors,
  the decoder and the parsers have no part in it: replacing them changes nothing.
\<close>
theorem stream_returned_untouched:
  assumes "axios_result (Axios_request env k request) = Inr res"
    and "response_url env request res = Inr url"
    and "req_responseType request = Some (js ''stream'')"
  shows "makeRequest env k request =
           Inr ((initial_response res url)
                  \<lparr>res_type := Some (js ''stream''), res_data := MStream (ax_data res)\<rparr>)
    \<and> makeRequest (env\<lparr>iconv_decode := dec, detect := det, detectEA := detEA,
                         JSON_parse := parse, parseXML := parseX\<rparr>) k request
        = makeRequest env k request"
proof -
  let ?env = "env\<lparr>iconv_decode := dec, detect := det, detectEA := detEA,
                    JSON_parse := parse, parseXML := parseX\<rparr>"
  have "response_url ?env request res = response_url env request res"
    by (simp add: response_url_def Let_def split: option.splits)
  with assms(1,2) have "axios_result (Axios_request ?env k request) = Inr res"
    and "response_url ?env request res = Inr url"
    by simp_all
  then have "makeRequest ?env k request =
           Inr ((initial_response res url)
                  \<lparr>res_type := Some (js ''stream''), res_data := MStream (ax_data res)\<rparr>)"
    using assms(3) by (simp add: makeRequest_received)
  with assms show ?thesis
    by (simp add: makeRequest_received)
qed


theorem stream_returned_untouched_witness:
  "makeRequest (example_fetch_env (Fulfilled (example_axios_response 200 (ascii_bytes ''{oops'')))
        (example_info ''application'' ''json'')) 0 (example_request (Some (js ''stream'')))
     = Inr \<lparr>res_ok = True, res_url = js ''http://localhost:3000/data'', res_status = 200,
            res_statusText = [], res_headers = Map.empty, res_cookies = HList [],
            res_type = Some (js ''stream''), res_data = MStream (ascii_bytes ''{oops'')\<rparr>"
proof -
  let ?res = "example_axios_response 200 (ascii_bytes ''{oops'')"
  let ?env = "example_fetch_env (Fulfilled ?res) (example_info ''application'' ''json'')"
  let ?rq = "example_request (Some (js ''stream''))"
  have r: "axios_result (Axios_request ?env 0 ?rq) = Inr ?res"
    by (simp add: example_fetch_env_def axios_result_def)
  have u: "response_url ?env ?rq ?res = Inr (js ''http://localhost:3000/data'')"
    by (simp add: response_url_def example_fetch_env_def example_request_def
        example_axios_response_def example_parts_def js_def)
  have t: "req_responseType ?rq = Some (js ''stream'')"
    by (simp add: example_request_def)
  from stream_returned_untouched [OF r u t] show ?thesis
    by (simp add: initial_response_def example_axios_response_def)
qed

text \<open>
  C1. The failing input: Axios rejects a 304 with an error that carries the response,
  and \<open>makeRequest\<close> builds its response from it with \<open>ok\<close> false, although the
  declaration of \<open>Response\<close> says that 304 counts as ok.
\<close>
theorem not_modified_is_not_ok:
  "makeRequest
     (example_fetch_env
        (Failed (axios_error (js ''Request failed with status code 304''))
           (Some (example_axios_response 304 [])))
        (example_info ''text'' ''html''))
     0 (example_request None)
   = Inr \<lparr>res_ok = False, res_url = js ''http://localhost:3000/data'', res_status = 304,
          res_statusText = [], res_headers = Map.empty, res_cookies = HList [],
          res_type = Some (js ''text''), res_data = MText []\<rparr>"
proof -
  let ?res = "example_axios_response 304 []"
  let ?env = "example_fetch_env
        (Failed (axios_error (js ''Request failed with status code 304'')) (Some ?res))
        (example_info ''text'' ''html'')"
  let ?rq = "example_request None"
  have r: "axios_result (Axios_request ?env 0 ?rq) = Inr ?res"
    by (simp add: example_fetch_env_def axios_result_def)
  have u: "response_url ?env ?rq ?res = Inr (js ''http://localhost:3000/data'')"
    by (simp add: response_url_def example_fetch_env_def example_request_def
        example_axios_response_def example_parts_def js_def)
  have d: "resolve_data ?env ?rq (resolveContentType ?env (ax_headers ?res) (req_headers ?rq))
             (ax_data ?res) = Inr (Some (js ''text''), MText [])"
    by (simp add: resolve_data_def resolve_charset_def auto_detect_def or_else_def truthy_def
        example_fetch_env_def example_request_def example_info_def example_axios_response_def
        js_def)
  show ?thesis
    by (simp add: makeRequest_received [OF r u] d)
      (simp add: example_request_def initial_response_def example_axios_response_def)
qed


lemma length_preview: "length (preview text) \<le> 32"
  by (simp add: preview_def js_def)

text \<open>
  C8. With \<open>responseType\<close> \<open>json\<close>, when a non-empty body is decoded to a text that
  the JSON parser (the XML parser when the content type is xml) rejects, \<open>makeRequest\<close>
  throws a \<open>TypeError\<close> whose message quotes a preview of the text: the text itself
  when it has at most 32 code units, else its first 29 followed by three dots. The
  preview never has more than 32 code units.
\<close>
theorem forced_json_parse_error:
  assumes "axios_result (Axios_request env k request) = Inr res"
    and "response_url env request res = Inr url"
    and "resolveContentType env (ax_headers res) (req_headers request) = resInfo"
    and "req_responseType request = Some (js ''json'')"
    and "resolve_charset env request resInfo (ax_data res) = Inr charset"
    and "ax_data res \<noteq> []"
    and "truthy charset"
    and "iconv_decode env (ax_data res) (str_of charset) = Some text"
    and "(if ci_type resInfo = Some (js ''xml'') then parseXML env text
          else JSON_parse env text) = None"
  shows "makeRequest env k request =
           Inl (TypeError (js ''Cannot decode the data '' @ apostrophe @ preview text
                  @ apostrophe @ js '' as JSON''))
    \<and> preview text = (if length text \<le> 32 then text else take 29 text @ js ''...'')
    \<and> length (preview text) \<le> 32"
proof -
  have "forced_text env request charset (ax_data res) = Inr text"
    using assms(6,7,8) by (simp add: forced_text_def Let_def)
  moreover have "forced_json env resInfo text =
           Inl (TypeError (js ''Cannot decode the data '' @ apostrophe @ preview text
                  @ apostrophe @ js '' as JSON''))"
    using assms(9) by (simp add: forced_json_def)
  ultimately have "resolve_data env request resInfo (ax_data res) =
           Inl (TypeError (js ''Cannot decode the data '' @ apostrophe @ preview text
                  @ apostrophe @ js '' as JSON''))"
    using assms(4,5)
    by (simp add: resolve_data_def Let_def or_else_def truthy_def literal_facts)
  then have "makeRequest env k request =
           Inl (TypeError (js ''Cannot decode the data '' @ apostrophe @ preview text
                  @ apostrophe @ js '' as JSON''))"
    using assms(3,4) by (simp add: makeRequest_received [OF assms(1,2)] literal_facts)
  moreover have "preview text = (if length text \<le> 32 then text else take 29 text @ js ''...'')"
    by (simp add: preview_def)
  ultimately show ?thesis
    using length_preview by blast
qed

theorem forced_json_parse_error_witness:
  "makeRequest
     (example_fetch_env
        (Fulfilled (example_axios_response 200
           (ascii_bytes ''{oops: this is certainly not valid JSON}'')))
        (example_info ''application'' ''json''))
     0 (example_request (Some (js ''json'')))
   = Inl (TypeError (js ''Cannot decode the data '' @ apostrophe
            @ js ''{oops: this is certainly not ...'' @ apostrophe @ js '' as JSON''))
   \<and> length (js ''{oops: this is certainly not ...'') = 32"
proof -
  let ?body = "ascii_bytes ''{oops: this is certainly not valid JSON}''"
  let ?text = "js ''{oops: this is certainly not valid JSON}''"
  let ?res = "example_axios_response 200 ?body"
  let ?info = "example_info ''application'' ''json''"
  let ?env = "example_fetch_env (Fulfilled ?res) ?info"
  let ?rq = "example_request (Some (js ''json''))"
  have r: "axios_result (Axios_request ?env 0 ?rq) = Inr ?res"
    by (simp add: example_fetch_env_def axios_result_def)
  have u: "response_url ?env ?rq ?res = Inr (js ''http://localhost:3000/data'')"
    by (simp add: response_url_def example_fetch_env_def example_request_def
        example_axios_response_def example_parts_def js_def)
  have i: "resolveContentType ?env (ax_headers ?res) (req_headers ?rq) = ?info"
    by (simp add: example_fetch_env_def)
  have t: "req_responseType ?rq = Some (js ''json'')"
    by (simp add: example_request_def)
  have c: "resolve_charset ?env ?rq ?info (ax_data ?res) = Inr (Some (js ''latin1''))"
    by (simp add: resolve_charset_def truthy_def example_request_def example_info_def js_def)
  have n: "ax_data ?res \<noteq> []"
    by (simp add: example_axios_response_def ascii_bytes_def)
  have tc: "truthy (Some (js ''latin1''))"
    by (simp add: truthy_def js_def)
  have m: "map ucast ?body = ?text"
    by code_simp
  have d: "iconv_decode ?env (ax_data ?res) (str_of (Some (js ''latin1''))) = Some ?text"
    by (simp add: example_fetch_env_def example_axios_response_def str_of_def m)
  have ne: "?text \<noteq> js ''{}''"
    by code_simp
  have b: "(if ci_type ?info = Some (js ''xml'') then parseXML ?env ?text
          else JSON_parse ?env ?text) = None"
    using ne by (simp add: example_info_def example_fetch_env_def literal_facts)
  have p: "preview ?text = js ''{oops: this is certainly not ...''"
    by code_simp
  have l: "length (js ''{oops: this is certainly not ...'') = 32"
    by code_simp
  from forced_json_parse_error [OF r u i t c n tc d b] p l show ?thesis
    by simp
qed


text \<open>The auto-detect branch gives the raw bytes whenever the prefix is not one of the
  three, and whenever a non-empty body cannot be decoded or parsed.\<close>

lemma auto_detect_buffer:
  assumes "ci_prefix resInfo \<notin> {Some (js ''text''), Some (js ''application''), Some (js ''*'')}
      \<or> (resData \<noteq> []
          \<and> (\<not> truthy charset
             \<or> iconv_decode env resData (str_of charset) = None
             \<or> (\<exists>text. iconv_decode env resData (str_of charset) = Some text
                  \<and> (type = Some (js ''json'') \<and> JSON_parse env text = None
                     \<or> type = Some (js ''xml'') \<and> parseXML env text = None))))"
  shows "auto_detect env resInfo type charset resData = (Some (js ''buffer''), MBuffer resData)"
  using assms by (auto simp: auto_detect_def literal_facts split: option.splits)

text \<open>
  C6. Without a \<open>responseType\<close> (and with the \<open>accept-language\<close> header that
  \<open>Fetcher.fetch\<close> always sets), \<open>makeRequest\<close> returns a response whenever the
  transport delivered one: decoding raises nothing. The result is the raw bytes with
  type \<open>buffer\<close> when the prefix is not \<open>text\<close>, \<open>application\<close> or \<open>*\<close>, and also when
  the prefix is one of them and a non-empty body has no charset, cannot be decoded by
  its charset, or decodes to a text that the JSON or XML parser rejects.
\<close>
theorem auto_mode_never_raises:
  assumes "axios_result (Axios_request env k request) = Inr res"
    and "response_url env request res = Inr url"
    and "resolveContentType env (ax_headers res) (req_headers request) = resInfo"
    and "\<not> truthy (req_responseType request)"
    and "req_headers request (js ''accept-language'') \<noteq> None"
  shows "(\<exists>type data. makeRequest env k request
             = Inr ((initial_response res url)\<lparr>res_type := type, res_data := data\<rparr>))
    \<and> (\<forall>charset.
          resolve_charset env request resInfo (ax_data res) = Inr charset
          \<and> (ci_prefix resInfo \<notin> {Some (js ''text''), Some (js ''application''), Some (js ''*'')}
             \<or> (ax_data res \<noteq> []
                \<and> (\<not> truthy charset
                   \<or> iconv_decode env (ax_data res) (str_of charset) = None
                   \<or> (\<exists>text. iconv_decode env (ax_data res) (str_of charset) = Some text
                        \<and> (ci_type resInfo = Some (js ''json'') \<and> JSON_parse env text = None
                           \<or> ci_type resInfo = Some (js ''xml'')
                               \<and> parseXML env text = None)))))
          \<longrightarrow> makeRequest env k request
                = Inr ((initial_response res url)
                         \<lparr>res_type := Some (js ''buffer''), res_data := MBuffer (ax_data res)\<rparr>))"
proof -
  have ns: "req_responseType request \<noteq> Some (js ''stream'')"
    using assms(4) by (auto simp: truthy_def literal_facts)
  have ty: "or_else (req_responseType request) (ci_type resInfo) = ci_type resInfo"
    using assms(4) by (simp add: or_else_def)
  obtain charset0 where c0: "resolve_charset env request resInfo (ax_data res) = Inr charset0"
    using resolve_charset_total [OF assms(5)] by blast
  have rd: "resolve_data env request resInfo (ax_data res) =
      Inr (if ci_type resInfo = Some (js ''buffer'') \<or> ci_type resInfo = Some (js ''octet-stream'')
           then (Some (js ''buffer''), MBuffer (ax_data res))
           else auto_detect env resInfo (ci_type resInfo) charset (ax_data res))"
    if "resolve_charset env request resInfo (ax_data res) = Inr charset" for charset
    using that assms(4) by (simp add: resolve_data_def Let_def ty)
  have mk: "makeRequest env k request =
      (case resolve_data env request resInfo (ax_data res) of
         Inl e \<Rightarrow> Inl e
       | Inr (type, data) \<Rightarrow>
           Inr ((initial_response res url)\<lparr>res_type := type, res_data := data\<rparr>))"
    using ns assms(3) by (simp add: makeRequest_received [OF assms(1,2)])
  have 1: "\<exists>type data. makeRequest env k request
             = Inr ((initial_response res url)\<lparr>res_type := type, res_data := data\<rparr>)"
  proof -
    obtain type data where "resolve_data env request resInfo (ax_data res) = Inr (type, data)"
      using rd [OF c0] by (metis surj_pair)
    then have "makeRequest env k request
        = Inr ((initial_response res url)\<lparr>res_type := type, res_data := data\<rparr>)"
      by (simp add: mk)
    then show ?thesis by blast
  qed
  have 2: "makeRequest env k request
                = Inr ((initial_response res url)
                         \<lparr>res_type := Some (js ''buffer''), res_data := MBuffer (ax_data res)\<rparr>)"
    if c: "resolve_charset env request resInfo (ax_data res) = Inr charset"
      and f: "ci_prefix resInfo \<notin> {Some (js ''text''), Some (js ''application''), Some (js ''*'')}
             \<or> (ax_data res \<noteq> []
                \<and> (\<not> truthy charset
                   \<or> iconv_decode env (ax_data res) (str_of charset) = None
                   \<or> (\<exists>text. iconv_decode env (ax_data res) (str_of charset) = Some text
                        \<and> (ci_type resInfo = Some (js ''json'') \<and> JSON_parse env text = None
                           \<or> ci_type resInfo = Some (js ''xml'')
                               \<and> parseXML env text = None))))"
    for charset
    by (simp add: mk rd [OF c] auto_detect_buffer [OF f])
  from 1 2 show ?thesis by blast
qed

theorem auto_mode_never_raises_witness:
  "makeRequest
     (example_fetch_env (Fulfilled (example_axios_response 200 (ascii_bytes ''{oops'')))
        (example_info ''application'' ''json''))
     0 (example_request None)
   = Inr \<lparr>res_ok = True, res_url = js ''http://localhost:3000/data'', res_status = 200,
          res_statusText = [], res_headers = Map.empty, res_cookies = HList [],
          res_type = Some (js ''buffer''), res_data = MBuffer (ascii_bytes ''{oops'')\<rparr>
   \<and> JSON_parse
       (example_fetch_env (Fulfilled (example_axios_response 200 (ascii_bytes ''{oops'')))
          (example_info ''application'' ''json'')) (js ''{oops'') = None"
proof -
  let ?body = "ascii_bytes ''{oops''"
  let ?text = "js ''{oops''"
  let ?res = "example_axios_response 200 ?body"
  let ?info = "example_info ''application'' ''json''"
  let ?env = "example_fetch_env (Fulfilled ?res) ?info"
  let ?rq = "example_request None"
  have r: "axios_result (Axios_request ?env 0 ?rq) = Inr ?res"
    by (simp add: example_fetch_env_def axios_result_def)
  have u: "response_url ?env ?rq ?res = Inr (js ''http://localhost:3000/data'')"
    by (simp add: response_url_def example_fetch_env_def example_request_def
        example_axios_response_def example_parts_def js_def)
  have i: "resolveContentType ?env (ax_headers ?res) (req_headers ?rq) = ?info"
    by (simp add: example_fetch_env_def)
  have t: "\<not> truthy (req_responseType ?rq)"
    by (simp add: example_request_def truthy_def)
  have a: "req_headers ?rq (js ''accept-language'') \<noteq> None"
    by (simp add: example_request_def)
  have c: "resolve_charset ?env ?rq ?info (ax_data ?res) = Inr (Some (js ''latin1''))"
    by (simp add: resolve_charset_def truthy_def example_request_def example_info_def js_def)
  have n: "ax_data ?res \<noteq> []"
    by (simp add: example_axios_response_def ascii_bytes_def)
  have m: "map ucast ?body = ?text"
    by code_simp
  have d: "iconv_decode ?env (ax_data ?res) (str_of (Some (js ''latin1''))) = Some ?text"
    by (simp add: example_fetch_env_def example_axios_response_def str_of_def m)
  have ne: "?text \<noteq> js ''{}''"
    by code_simp
  then have b: "JSON_parse ?env ?text = None"
    by (simp add: example_fetch_env_def)
  have j: "ci_type ?info = Some (js ''json'')"
    by (simp add: example_info_def)
  from auto_mode_never_raises [OF r u i t a] c n d b j
  have "makeRequest ?env 0 ?rq
      = Inr ((initial_response ?res (js ''http://localhost:3000/data''))
               \<lparr>res_type := Some (js ''buffer''), res_data := MBuffer (ax_data ?res)\<rparr>)"
    by blast
  with b show ?thesis
    by (simp add: initial_response_def example_axios_response_def)
qed


text \<open>With \<open>responseType\<close> \<open>json\<close>, the empty text of an empty body goes to the parser.\<close>

lemma forced_json_empty_body:
  assumes "axios_result (Axios_request env k request) = Inr res"
    and "response_url env request res = Inr url"
    and "resolveContentType env (ax_headers res) (req_headers request) = resInfo"
    and "ax_data res = []"
    and "req_headers request (js ''accept-language'') \<noteq> None"
    and "req_responseType request = Some (js ''json'')"
  shows "makeRequest env k request =
     (case forced_json env resInfo [] of
        Inl e \<Rightarrow> Inl e
      | Inr (type, data) \<Rightarrow>
          Inr ((initial_response res url)\<lparr>res_type := type, res_data := data\<rparr>))"
proof -
  obtain charset where c: "resolve_charset env request resInfo [] = Inr charset"
    using resolve_charset_total [OF assms(5)] by blast
  have ft: "forced_text env request charset [] = Inr []"
    by (simp add: forced_text_def Let_def)
  from assms(6) have "resolve_data env request resInfo [] = forced_json env resInfo []"
    by (simp add: resolve_data_def Let_def c ft or_else_def truthy_def literal_facts)
  with assms(6) show ?thesis
    using assms(3,4) by (simp add: makeRequest_received [OF assms(1,2)] literal_facts)
qed

text \<open>
  C2. An empty body is not always the empty text. Without a \<open>responseType\<close> and with a
  prefix such as \<open>image\<close> it is an empty buffer. With \<open>responseType\<close> \<open>json\<close> the empty
  text is parsed, and a parser that rejects it, as \<open>JSON.parse\<close> does, makes
  \<open>makeRequest\<close> throw.
\<close>
theorem empty_body_counterexample:
  "makeRequest
     (example_fetch_env (Fulfilled (example_axios_response 200 []))
        (example_info ''image'' ''png''))
     0 (example_request None)
   = Inr \<lparr>res_ok = True, res_url = js ''http://localhost:3000/data'', res_status = 200,
          res_statusText = [], res_headers = Map.empty, res_cookies = HList [],
          res_type = Some (js ''buffer''), res_data = MBuffer []\<rparr>
   \<and> makeRequest
     (example_fetch_env (Fulfilled (example_axios_response 200 []))
        (example_info ''application'' ''json''))
     0 (example_request (Some (js ''json'')))
   = Inl (TypeError (js ''Cannot decode the data '' @ apostrophe @ apostrophe @ js '' as JSON''))"
proof -
  have image: "makeRequest
     (example_fetch_env (Fulfilled (example_axios_response 200 []))
        (example_info ''image'' ''png''))
     0 (example_request None)
   = Inr \<lparr>res_ok = True, res_url = js ''http://localhost:3000/data'', res_status = 200,
          res_statusText = [], res_headers = Map.empty, res_cookies = HList [],
          res_type = Some (js ''buffer''), res_data = MBuffer []\<rparr>"
  proof -
    let ?res = "example_axios_response 200 []"
    let ?info = "example_info ''image'' ''png''"
    let ?env = "example_fetch_env (Fulfilled ?res) ?info"
    let ?rq = "example_request None"
    have r: "axios_result (Axios_request ?env 0 ?rq) = Inr ?res"
      by (simp add: example_fetch_env_def axios_result_def)
    have u: "response_url ?env ?rq ?res = Inr (js ''http://localhost:3000/data'')"
      by (simp add: response_url_def example_fetch_env_def example_request_def
          example_axios_response_def example_parts_def js_def)
    have i: "resolveContentType ?env (ax_headers ?res) (req_headers ?rq) = ?info"
      by (simp add: example_fetch_env_def)
    have b: "ax_data ?res = []"
      by (simp add: example_axios_response_def)
    have c: "resolve_charset ?env ?rq ?info [] = Inr (Some (js ''latin1''))"
      by (simp add: resolve_charset_def truthy_def example_request_def example_info_def js_def)
    have p: "ci_prefix ?info \<notin> set [Some (js ''text''), Some (js ''application''), Some (js ''*'')]"
      by (simp add: example_info_def js_def)
    have ty: "ci_type ?info \<noteq> Some (js ''buffer'')" "ci_type ?info \<noteq> Some (js ''octet-stream'')"
      by (simp_all add: example_info_def js_def)
    have rt: "req_responseType ?rq = None"
      by (simp add: example_request_def)
    have d: "resolve_data ?env ?rq (resolveContentType ?env (ax_headers ?res) (req_headers ?rq))
               (ax_data ?res) = Inr (Some (js ''buffer''), MBuffer [])"
      unfolding i b using p ty
      by (simp add: resolve_data_def Let_def rt c or_else_def truthy_def auto_detect_def)
    show ?thesis
      by (simp add: makeRequest_received [OF r u] d rt)
        (simp add: initial_response_def example_axios_response_def)
  qed
  have "makeRequest
     (example_fetch_env (Fulfilled (example_axios_response 200 []))
        (example_info ''application'' ''json''))
     0 (example_request (Some (js ''json'')))
   = Inl (TypeError (js ''Cannot decode the data '' @ apostrophe @ apostrophe @ js '' as JSON''))"
  proof -
    let ?res = "example_axios_response 200 []"
    let ?info = "example_info ''application'' ''json''"
    let ?env = "example_fetch_env (Fulfilled ?res) ?info"
    let ?rq = "example_request (Some (js ''json''))"
    have r: "axios_result (Axios_request ?env 0 ?rq) = Inr ?res"
      by (simp add: example_fetch_env_def axios_result_def)
    have u: "response_url ?env ?rq ?res = Inr (js ''http://localhost:3000/data'')"
      by (simp add: response_url_def example_fetch_env_def example_request_def
          example_axios_response_def example_parts_def js_def)
    have i: "resolveContentType ?env (ax_headers ?res) (req_headers ?rq) = ?info"
      by (simp add: example_fetch_env_def)
    have b: "ax_data ?res = []"
      by (simp add: example_axios_response_def)
    have c: "resolve_charset ?env ?rq ?info [] = Inr (Some (js ''latin1''))"
      by (simp add: resolve_charset_def truthy_def example_request_def example_info_def js_def)
    have ft: "forced_text ?env ?rq (Some (js ''latin1'')) [] = Inr []"
      by (simp add: forced_text_def Let_def)
    have e: "[] \<noteq> js ''{}''"
      by (simp add: js_def)
    then have fj: "forced_json ?env ?info []
        = Inl (TypeError (js ''Cannot decode the data '' @ apostrophe @ apostrophe
                 @ js '' as JSON''))"
      by (simp add: forced_json_def preview_def example_info_def example_fetch_env_def
          literal_facts)
    have rt: "req_responseType ?rq = Some (js ''json'')"
      by (simp add: example_request_def)
    have d: "resolve_data ?env ?rq (resolveContentType ?env (ax_headers ?res) (req_headers ?rq))
               (ax_data ?res)
          = Inl (TypeError (js ''Cannot decode the data '' @ apostrophe @ apostrophe
                   @ js '' as JSON''))"
      unfolding i b
      by (simp add: resolve_data_def Let_def rt c ft fj or_else_def truthy_def literal_facts)
    have t: "req_responseType ?rq \<noteq> Some (js ''stream'')"
      by (simp add: example_request_def literal_facts)
    show ?thesis
      using t by (simp add: makeRequest_received [OF r u] d)
  qed
  with image show ?thesis by simp
qed

text \<open>
  C2, amended. For an empty body, with \<open>responseType\<close> \<open>text\<close>, and without a
  \<open>responseType\<close> when the prefix is \<open>text\<close>, \<open>application\<close> or \<open>*\<close> and the type is
  neither \<open>buffer\<close> nor \<open>octet-stream\<close>, the result is the empty text with type
  \<open>text\<close>: nothing is decoded or parsed and nothing is thrown. Without a
  \<open>responseType\<close> otherwise, it is the empty buffer.
\<close>

theorem empty_body:
  assumes "axios_result (Axios_request env k request) = Inr res"
    and "response_url env request res = Inr url"
    and "resolveContentType env (ax_headers res) (req_headers request) = resInfo"
    and "ax_data res = []"
    and "req_headers request (js ''accept-language'') \<noteq> None"
    and "req_responseType request = Some (js ''text'') \<or> \<not> truthy (req_responseType request)"
  shows "makeRequest env k request =
     (if req_responseType request = Some (js ''text'')
         \<or> (ci_type resInfo \<noteq> Some (js ''buffer'')
            \<and> ci_type resInfo \<noteq> Some (js ''octet-stream'')
            \<and> ci_prefix resInfo
                 \<in> {Some (js ''text''), Some (js ''application''), Some (js ''*'')})
      then Inr ((initial_response res url)\<lparr>res_type := Some (js ''text''), res_data := MText []\<rparr>)
      else Inr ((initial_response res url)
                  \<lparr>res_type := Some (js ''buffer''), res_data := MBuffer []\<rparr>))"
proof -
  obtain charset where c: "resolve_charset env request resInfo [] = Inr charset"
    using resolve_charset_total [OF assms(5)] by blast
  have ft: "forced_text env request charset [] = Inr []"
    by (simp add: forced_text_def Let_def)
  from assms(6) show ?thesis
  proof
    assume as_text: "req_responseType request = Some (js ''text'')"
    then have "resolve_data env request resInfo [] = Inr (Some (js ''text''), MText [])"
      by (simp add: resolve_data_def Let_def c ft or_else_def truthy_def literal_facts)
    with as_text show ?thesis
      using assms(3,4) by (simp add: makeRequest_received [OF assms(1,2)] literal_facts)
  next
    assume detect: "\<not> truthy (req_responseType request)"
    then have ns: "req_responseType request \<noteq> Some (js ''stream'')"
      "req_responseType request \<noteq> Some (js ''text'')"
      by (auto simp: truthy_def literal_facts)
    from detect have "resolve_data env request resInfo [] =
        Inr (if ci_type resInfo = Some (js ''buffer'') \<or> ci_type resInfo = Some (js ''octet-stream'')
             then (Some (js ''buffer''), MBuffer [])
             else auto_detect env resInfo (ci_type resInfo) charset [])"
      by (simp add: resolve_data_def Let_def c or_else_def)
    with ns show ?thesis
      using assms(3,4)
      by (simp add: makeRequest_received [OF assms(1,2)] auto_detect_def)
  qed
qed

theorem empty_body_witness:
  "makeRequest
     (example_fetch_env (Fulfilled (example_axios_response 200 []))
        (example_info ''application'' ''json''))
     0 (example_request (Some (js ''text'')))
   = Inr \<lparr>res_ok = True, res_url = js ''http://localhost:3000/data'', res_status = 200,
          res_statusText = [], res_headers = Map.empty, res_cookies = HList [],
          res_type = Some (js ''text''), res_data = MText []\<rparr>"
proof -
  let ?res = "example_axios_response 200 []"
  let ?info = "example_info ''application'' ''json''"
  let ?env = "example_fetch_env (Fulfilled ?res) ?info"
  let ?rq = "example_request (Some (js ''text''))"
  have r: "axios_result (Axios_request ?env 0 ?rq) = Inr ?res"
    by (simp add: example_fetch_env_def axios_result_def)
  have u: "response_url ?env ?rq ?res = Inr (js ''http://localhost:3000/data'')"
    by (simp add: response_url_def example_fetch_env_def example_request_def
        example_axios_response_def example_parts_def js_def)
  have i: "resolveContentType ?env (ax_headers ?res) (req_headers ?rq) = ?info"
    by (simp add: example_fetch_env_def)
  have b: "ax_data ?res = []"
    by (simp add: example_axios_response_def)
  have a: "req_headers ?rq (js ''accept-language'') \<noteq> None"
    by (simp add: example_request_def)
  have t: "req_responseType ?rq = Some (js ''text'')"
    by (simp add: example_request_def)
  then have m: "req_responseType ?rq = Some (js ''text'') \<or> \<not> truthy (req_responseType ?rq)"
    by simp
  from empty_body [OF r u i b a m] t show ?thesis
    by (simp add: initial_response_def example_axios_response_def)
qed

end
